theory Spec2Isabelle
  imports Main
begin

section \<open>Go strings\<close>

text \<open>
  A Go string is a sequence of bytes; \<^typ>\<open>string\<close> (a list of 8-bit characters) is
  used for it.  Two library functions of the handlers read strings as UTF-8:
  \<^verbatim>\<open>strings.TrimSpace\<close> (the gates) and \<^verbatim>\<open>utf8.RuneCountInString\<close> (the \<^verbatim>\<open>min\<close>
  and \<^verbatim>\<open>max\<close> tags of the validator).
\<close>

text \<open>The UTF-8 encodings of the code points with Unicode's White_Space property
  (\<^verbatim>\<open>unicode.IsSpace\<close>): U+0009..U+000D, U+0020, U+0085, U+00A0, U+1680,
  U+2000..U+200A, U+2028, U+2029, U+202F, U+205F, U+3000.\<close>

definition space_runes :: "string list" where
  "space_runes =
     [[CHR 0x09], [CHR 0x0A], [CHR 0x0B], [CHR 0x0C], [CHR 0x0D], [CHR 0x20],
      [CHR 0xC2, CHR 0x85], [CHR 0xC2, CHR 0xA0],
      [CHR 0xE1, CHR 0x9A, CHR 0x80],
      [CHR 0xE2, CHR 0x80, CHR 0x80], [CHR 0xE2, CHR 0x80, CHR 0x81],
      [CHR 0xE2, CHR 0x80, CHR 0x82], [CHR 0xE2, CHR 0x80, CHR 0x83],
      [CHR 0xE2, CHR 0x80, CHR 0x84], [CHR 0xE2, CHR 0x80, CHR 0x85],
      [CHR 0xE2, CHR 0x80, CHR 0x86], [CHR 0xE2, CHR 0x80, CHR 0x87],
      [CHR 0xE2, CHR 0x80, CHR 0x88], [CHR 0xE2, CHR 0x80, CHR 0x89],
      [CHR 0xE2, CHR 0x80, CHR 0x8A],
      [CHR 0xE2, CHR 0x80, CHR 0xA8], [CHR 0xE2, CHR 0x80, CHR 0xA9],
      [CHR 0xE2, CHR 0x80, CHR 0xAF],
      [CHR 0xE2, CHR 0x81, CHR 0x9F],
      [CHR 0xE3, CHR 0x80, CHR 0x80]]"

text \<open>The width in bytes of the white-space rune a string starts with; 0 when it
  starts with none.\<close>

definition leading_space :: "string list \<Rightarrow> string \<Rightarrow> nat" where
  "leading_space encs s =
     (case find (\<lambda>e. take (length e) s = e) encs of None \<Rightarrow> 0 | Some e \<Rightarrow> length e)"

function trim_front :: "string list \<Rightarrow> string \<Rightarrow> string" where
  "trim_front encs [] = []"
| "trim_front encs (c # cs) =
     (if leading_space encs (c # cs) = 0 then c # cs
      else trim_front encs (drop (leading_space encs (c # cs) - 1) cs))"
  by pat_completeness auto
termination
  by (relation "measure (\<lambda>(encs, s). length s)") auto

text \<open>\<^verbatim>\<open>strings.TrimSpace\<close>: the white-space runes are removed from the front, then
  from the back (the encodings reversed, on the reversed string).\<close>

definition TrimSpace :: "string \<Rightarrow> string" where
  "TrimSpace s = rev (trim_front (map rev space_runes) (rev (trim_front space_runes s)))"

text \<open>\<^verbatim>\<open>utf8.RuneCountInString\<close>.  \<open>rune_size\<close> is the number of bytes
  \<^verbatim>\<open>utf8.DecodeRuneInString\<close> consumes: the length of a well-formed encoding, 1 for a
  byte that starts none.\<close>

definition lead_info :: "nat \<Rightarrow> (nat \<times> nat \<times> nat) option" where
  "lead_info b =
     (if 0xC2 \<le> b \<and> b \<le> 0xDF then Some (2, 0x80, 0xBF)
      else if b = 0xE0 then Some (3, 0xA0, 0xBF)
      else if 0xE1 \<le> b \<and> b \<le> 0xEC then Some (3, 0x80, 0xBF)
      else if b = 0xED then Some (3, 0x80, 0x9F)
      else if 0xEE \<le> b \<and> b \<le> 0xEF then Some (3, 0x80, 0xBF)
      else if b = 0xF0 then Some (4, 0x90, 0xBF)
      else if 0xF1 \<le> b \<and> b \<le> 0xF3 then Some (4, 0x80, 0xBF)
      else if b = 0xF4 then Some (4, 0x80, 0x8F)
      else None)"

definition continuation :: "nat \<Rightarrow> bool" where
  "continuation b = (0x80 \<le> b \<and> b \<le> 0xBF)"

definition rune_size :: "nat \<Rightarrow> nat list \<Rightarrow> nat" where
  "rune_size b0 rest =
     (case lead_info b0 of
        None \<Rightarrow> 1
      | Some (sz, lo, hi) \<Rightarrow>
          if Suc (length rest) < sz then 1
          else if \<not> (lo \<le> rest ! 0 \<and> rest ! 0 \<le> hi) then 1
          else if sz \<le> 2 then 2
          else if \<not> continuation (rest ! 1) then 1
          else if sz \<le> 3 then 3
          else if \<not> continuation (rest ! 2) then 1
          else 4)"

function rune_count :: "nat list \<Rightarrow> nat" where
  "rune_count [] = 0"
| "rune_count (b # bs) = Suc (rune_count (drop (rune_size b bs - 1) bs))"
  by pat_completeness auto
termination
  by (relation "measure length") auto

definition RuneCountInString :: "string \<Rightarrow> nat" where
  "RuneCountInString s = rune_count (map of_char s)"

section \<open>Validation of account fields\<close>

text \<open>
  \<^verbatim>\<open>warriorAccount\<close> and \<^verbatim>\<open>warriorPassword\<close> with their \<^verbatim>\<open>validate\<close> tags, as the
  validator (gopkg.in/go-playground/validator.v9) reads them on string fields:
  \<^verbatim>\<open>required\<close> is "not the empty string", \<^verbatim>\<open>min=6\<close> and \<^verbatim>\<open>max=72\<close> bound the number
  of runes, \<^verbatim>\<open>eqfield=Password1\<close> is string equality, \<^verbatim>\<open>email\<close> is a match of the
  library's e-mail pattern.  The pattern is a parameter (\<open>emailRegex\<close>).
\<close>

datatype error = errors_New string

record warriorAccount =
  Name :: string
  Email :: string
  Password1 :: string
  Password2 :: string

record warriorPassword =
  pwPassword1 :: string
  pwPassword2 :: string

definition required :: "string \<Rightarrow> bool" where
  "required s = (s \<noteq> [])"

definition min_max :: "string \<Rightarrow> bool" where
  "min_max s = (6 \<le> RuneCountInString s \<and> RuneCountInString s \<le> 72)"

definition v_Struct_warriorAccount :: "(string \<Rightarrow> bool) \<Rightarrow> warriorAccount \<Rightarrow> error option" where
  "v_Struct_warriorAccount emailRegex a =
     (if \<not> required (Name a) then Some (errors_New ''Name: required'')
      else if \<not> required (Email a) then Some (errors_New ''Email: required'')
      else if \<not> emailRegex (Email a) then Some (errors_New ''Email: email'')
      else if \<not> required (Password1 a) then Some (errors_New ''Password1: required'')
      else if \<not> min_max (Password1 a) then Some (errors_New ''Password1: min/max'')
      else if \<not> required (Password2 a) then Some (errors_New ''Password2: required'')
      else if \<not> min_max (Password2 a) then Some (errors_New ''Password2: min/max'')
      else if Password2 a \<noteq> Password1 a then Some (errors_New ''Password2: eqfield'')
      else None)"

definition v_Struct_warriorPassword :: "warriorPassword \<Rightarrow> error option" where
  "v_Struct_warriorPassword a =
     (if \<not> required (pwPassword1 a) then Some (errors_New ''Password1: required'')
      else if \<not> min_max (pwPassword1 a) then Some (errors_New ''Password1: min/max'')
      else if \<not> required (pwPassword2 a) then Some (errors_New ''Password2: required'')
      else if \<not> min_max (pwPassword2 a) then Some (errors_New ''Password2: min/max'')
      else if pwPassword2 a \<noteq> pwPassword1 a then Some (errors_New ''Password2: eqfield'')
      else None)"

text \<open>\<^verbatim>\<open>ValidateWarriorAccount\<close> returns its arguments and the validator's error.\<close>

definition ValidateWarriorAccount ::
  "(string \<Rightarrow> bool) \<Rightarrow> string \<Rightarrow> string \<Rightarrow> string \<Rightarrow> string
     \<Rightarrow> string \<times> string \<times> string \<times> error option" where
  "ValidateWarriorAccount emailRegex name email pwd1 pwd2 =
     (let a = \<lparr>Name = name, Email = email, Password1 = pwd1, Password2 = pwd2\<rparr>;
          err = v_Struct_warriorAccount emailRegex a
      in (name, email, pwd1, err))"

definition ValidateWarriorPassword :: "string \<Rightarrow> string \<Rightarrow> string \<times> error option" where
  "ValidateWarriorPassword pwd1 pwd2 =
     (let a = \<lparr>pwPassword1 = pwd1, pwPassword2 = pwd2\<rparr>;
          err = v_Struct_warriorPassword a
      in (pwd1, err))"

section \<open>Requests and responses\<close>

text \<open>
  A request body is held as the JSON value its bytes parse to (\<open>None\<close> when the bytes
  are not well-formed JSON); the parser itself is \<^verbatim>\<open>encoding/json\<close>'s.
\<close>

datatype json =
    JNull
  | JBool bool
  | JNumber string
  | JString string
  | JArray "json list"
  | JObject "(string \<times> json) list"

text \<open>\<^verbatim>\<open>json.Unmarshal(body, &keyVal)\<close> for \<^verbatim>\<open>keyVal\<close> a \<^verbatim>\<open>map[string]string\<close>: a member
  whose value is a string is stored; \<^verbatim>\<open>null\<close> and a value of another type leave the
  element at its zero value \<^verbatim>\<open>""\<close>, the latter with an error; a later member of the same
  name overwrites an earlier one.  A body that is not an object leaves the map empty.\<close>

fun string_elem :: "json \<Rightarrow> string" where
  "string_elem (JString v) = v"
| "string_elem _ = []"

fun string_elem_ok :: "json \<Rightarrow> bool" where
  "string_elem_ok (JString v) = True"
| "string_elem_ok JNull = True"
| "string_elem_ok _ = False"

fun Unmarshal_strings :: "json option \<Rightarrow> (string \<rightharpoonup> string) \<times> error option" where
  "Unmarshal_strings None = (Map.empty, Some (errors_New ''json: syntax error''))"
| "Unmarshal_strings (Some (JObject kvs)) =
     (fold (\<lambda>(k, v) m. m(k \<mapsto> string_elem v)) kvs Map.empty,
      if list_all (\<lambda>(k, v). string_elem_ok v) kvs then None
      else Some (errors_New ''json: cannot unmarshal into Go value of type string''))"
| "Unmarshal_strings (Some JNull) = (Map.empty, None)"
| "Unmarshal_strings (Some _) =
     (Map.empty, Some (errors_New ''json: cannot unmarshal into Go value of type map[string]string''))"

text \<open>\<^verbatim>\<open>keyVal["k"]\<close> on a \<^verbatim>\<open>map[string]string\<close>: the zero value for a missing key.\<close>

definition index_strings :: "(string \<rightharpoonup> string) \<Rightarrow> string \<Rightarrow> string" where
  "index_strings m k = (case m k of None \<Rightarrow> [] | Some v \<Rightarrow> v)"

text \<open>The same for \<^verbatim>\<open>map[string]interface{}\<close>: every member is stored with its value
  (\<^verbatim>\<open>null\<close> as the nil interface, here \<open>JNull\<close>).\<close>

fun Unmarshal_values :: "json option \<Rightarrow> (string \<rightharpoonup> json) \<times> error option" where
  "Unmarshal_values None = (Map.empty, Some (errors_New ''json: syntax error''))"
| "Unmarshal_values (Some (JObject kvs)) = (fold (\<lambda>(k, v) m. m(k \<mapsto> v)) kvs Map.empty, None)"
| "Unmarshal_values (Some JNull) = (Map.empty, None)"
| "Unmarshal_values (Some _) =
     (Map.empty, Some (errors_New ''json: cannot unmarshal into Go value of type map[string]interface {}''))"

text \<open>The type assertions \<^verbatim>\<open>keyVal["k"].(string)\<close> and \<^verbatim>\<open>keyVal["k"].(bool)\<close>: \<open>None\<close>
  is the run-time panic of the one-result form (a missing key indexes to the nil
  interface, which holds no string).\<close>

definition assert_string :: "(string \<rightharpoonup> json) \<Rightarrow> string \<Rightarrow> string option" where
  "assert_string m k = (case m k of Some (JString v) \<Rightarrow> Some v | _ \<Rightarrow> None)"

definition assert_bool :: "(string \<rightharpoonup> json) \<Rightarrow> string \<Rightarrow> bool option" where
  "assert_bool m k = (case m k of Some (JBool b) \<Rightarrow> Some b | _ \<Rightarrow> None)"

text \<open>\<^verbatim>\<open>http.SameSite\<close>; its zero value, the one of a cookie literal that does not set the
  field, is none of the four named modes.\<close>

datatype SameSite =
  SameSiteZero | SameSiteDefaultMode | SameSiteLaxMode | SameSiteStrictMode | SameSiteNoneMode

record Cookie =
  cName :: string
  cValue :: string
  cPath :: string
  cDomain :: string
  cMaxAge :: int
  cSecure :: bool
  cHttpOnly :: bool
  cSameSite :: SameSite

text \<open>Modelled from the spec: the Member record of the data model (section 3), the type
  \<^verbatim>\<open>database.Warrior\<close> of pkg/database, which is not among the sources.  The handlers read
  its field \<^verbatim>\<open>WarriorID\<close> only and hand the rest to \<^verbatim>\<open>json.Marshal\<close>.\<close>

datatype Role = Guest | Registered | Admin

record Warrior =
  WarriorID :: string
  displayName :: string
  memberEmail :: string
  role :: Role
  avatarSeed :: string
  verified :: bool
  notificationPreference :: bool

text \<open>Modelled from the spec: the API Key of the data model (section 3), the type
  \<^verbatim>\<open>database.APIKey\<close> of pkg/database, which is not among the sources.\<close>

record APIKey =
  keyID :: string
  keyWarriorID :: string
  keyName :: string
  keySecret :: string
  keyActive :: bool
  keyCreatedDate :: string

text \<open>The bytes \<^verbatim>\<open>json.Marshal\<close> makes of a payload are kept as the payload.\<close>

datatype payload = Marshal_Warrior Warrior | Marshal_APIKey APIKey | Marshal_APIKeys "APIKey list"

text \<open>
  \<^verbatim>\<open>http.ResponseWriter\<close>.  \<open>Header\<close> is the header map of the writer: a line is a
  cookie handed to \<^verbatim>\<open>http.SetCookie\<close> (the cookie, not its wire form) or a field set
  with \<^verbatim>\<open>Header().Set\<close>.  The first
  \<^verbatim>\<open>WriteHeader\<close> fixes the status code and sends the header map as it is then; a later
  one is ignored.  \<^verbatim>\<open>Write\<close> sends the header with status 200 first when none was sent.
  A handler that returns without either answers 200 (\<open>status\<close>).
\<close>

datatype header_line = SetCookie Cookie | Field string string

datatype chunk = JSON_of payload | Bytes "string"

record ResponseWriter =
  Header :: "header_line list"
  wroteHeader :: bool
  StatusCode :: nat
  sentHeader :: "header_line list"
  Body :: "chunk list"

definition NewResponseWriter :: ResponseWriter where
  "NewResponseWriter =
     \<lparr>Header = [], wroteHeader = False, StatusCode = 0, sentHeader = [], Body = []\<rparr>"

definition rw_WriteHeader :: "nat \<Rightarrow> ResponseWriter \<Rightarrow> ResponseWriter" where
  "rw_WriteHeader code rw =
     (if wroteHeader rw then rw
      else rw\<lparr>wroteHeader := True, StatusCode := code, sentHeader := Header rw\<rparr>)"

definition rw_Write :: "chunk \<Rightarrow> ResponseWriter \<Rightarrow> ResponseWriter" where
  "rw_Write b rw = (let rw' = rw_WriteHeader 200 rw in rw'\<lparr>Body := Body rw' @ [b]\<rparr>)"

fun is_field :: "string \<Rightarrow> header_line \<Rightarrow> bool" where
  "is_field k (Field k' v) = (k = k')"
| "is_field k (SetCookie c) = False"

definition rw_Header_Set :: "string \<Rightarrow> string \<Rightarrow> ResponseWriter \<Rightarrow> ResponseWriter" where
  "rw_Header_Set k v rw = rw\<lparr>Header := filter (\<lambda>l. \<not> is_field k l) (Header rw) @ [Field k v]\<rparr>"

definition http_SetCookie :: "Cookie \<Rightarrow> ResponseWriter \<Rightarrow> ResponseWriter" where
  "http_SetCookie c rw = rw\<lparr>Header := Header rw @ [SetCookie c]\<rparr>"

definition status :: "ResponseWriter \<Rightarrow> nat" where
  "status rw = (if wroteHeader rw then StatusCode rw else 200)"

text \<open>
  \<^verbatim>\<open>*http.Request\<close>, as far as the handlers read it: \<open>reqHeader r k\<close> are the values
  of header \<open>k\<close> (\<^verbatim>\<open>r.Header.Values(k)\<close>), \<open>reqCookies\<close> the cookies of the request
  (name and value) in the order \<^verbatim>\<open>net/http\<close> parses them, \<open>Vars\<close> the route variables
  (\<^verbatim>\<open>mux.Vars(r)\<close>), \<open>reqBody\<close> the parsed body and \<open>ctxWarriorID\<close> the value
  \<^verbatim>\<open>r.Context().Value(contextKeyWarriorID)\<close>, a string once a gate has bound it.
\<close>

record Request =
  reqHeader :: "string \<Rightarrow> string list"
  reqCookies :: "(string \<times> string) list"
  Vars :: "string \<rightharpoonup> string"
  reqBody :: "json option"
  ctxWarriorID :: "string option"

definition apiKeyHeaderName :: string where
  "apiKeyHeaderName = ''X-API-Key''"

text \<open>\<^verbatim>\<open>r.Header.Get(k)\<close>: the first value, \<^verbatim>\<open>""\<close> when there is none.\<close>

definition Header_Get :: "Request \<Rightarrow> string \<Rightarrow> string" where
  "Header_Get r k = (case reqHeader r k of [] \<Rightarrow> [] | v # _ \<Rightarrow> v)"

text \<open>\<^verbatim>\<open>r.Cookie(name)\<close>: the value of the first cookie of that name, or
  \<^verbatim>\<open>http.ErrNoCookie\<close>.\<close>

definition ErrNoCookie :: error where
  "ErrNoCookie = errors_New ''http: named cookie not present''"

definition Request_Cookie :: "Request \<Rightarrow> string \<Rightarrow> error + string" where
  "Request_Cookie r name =
     (case map_of (reqCookies r) name of None \<Rightarrow> Inl ErrNoCookie | Some v \<Rightarrow> Inr v)"

text \<open>\<^verbatim>\<open>r.Context().Value(contextKeyWarriorID).(string)\<close>: \<open>None\<close> is the panic of the
  assertion when no gate has bound an identity.\<close>

definition WithContext :: "string \<Rightarrow> Request \<Rightarrow> Request" where
  "WithContext warriorID r = r\<lparr>ctxWarriorID := Some warriorID\<rparr>"

section \<open>The server and its collaborators\<close>

record Config =
  SecureCookieName :: string
  FrontendCookieName :: string
  PathPrefix :: string
  AppDomain :: string
  SecureCookieFlag :: bool
  AvatarService :: string

text \<open>
  The methods of \<^verbatim>\<open>s.database\<close> that the handlers below call.  The package is not among
  the sources: each method is a parameter, a function from the state of the store to a
  result and the state after the call.  A Go result \<^verbatim>\<open>(v, err)\<close> is \<open>Inr v\<close> when
  \<^verbatim>\<open>err == nil\<close> and \<open>Inl err\<close> otherwise; a lone \<^verbatim>\<open>error\<close> is an \<open>error option\<close>.
\<close>

record 'db Database =
  ValidateAPIKey :: "string \<Rightarrow> 'db \<Rightarrow> (error + string) \<times> 'db"
  ConfirmAdmin :: "string \<Rightarrow> 'db \<Rightarrow> error option \<times> 'db"
  GetWarrior :: "string \<Rightarrow> 'db \<Rightarrow> (error + Warrior) \<times> 'db"
  CreateWarriorCorporal ::
    "string \<Rightarrow> string \<Rightarrow> string \<Rightarrow> string \<Rightarrow> 'db \<Rightarrow> (error + Warrior \<times> string) \<times> 'db"
  WarriorResetRequest :: "string \<Rightarrow> 'db \<Rightarrow> (error + string \<times> string) \<times> 'db"
  WarriorResetPassword :: "string \<Rightarrow> string \<Rightarrow> 'db \<Rightarrow> (error + string \<times> string) \<times> 'db"
  VerifyWarriorAccount :: "string \<Rightarrow> 'db \<Rightarrow> error option \<times> 'db"
  UpdateWarriorProfile :: "string \<Rightarrow> string \<Rightarrow> string \<Rightarrow> bool \<Rightarrow> 'db \<Rightarrow> error option \<times> 'db"
  GenerateAPIKey :: "string \<Rightarrow> string \<Rightarrow> 'db \<Rightarrow> (error + APIKey) \<times> 'db"
  GetWarriorAPIKeys :: "string \<Rightarrow> 'db \<Rightarrow> (error + APIKey list) \<times> 'db"
  UpdateWarriorAPIKey :: "string \<Rightarrow> string \<Rightarrow> bool \<Rightarrow> 'db \<Rightarrow> (error + APIKey list) \<times> 'db"
  DeleteWarriorAPIKey :: "string \<Rightarrow> string \<Rightarrow> 'db \<Rightarrow> (error + APIKey list) \<times> 'db"

text \<open>\<^verbatim>\<open>s.cookie\<close>, the codec of github.com/gorilla/securecookie.\<close>

record SecureCookie =
  Encode :: "string \<Rightarrow> string \<Rightarrow> error + string"
  Decode :: "string \<Rightarrow> string \<Rightarrow> error + string"

text \<open>The server: its \<^verbatim>\<open>config\<close>, \<^verbatim>\<open>database\<close> and \<^verbatim>\<open>cookie\<close> fields, and with them what
  the handlers read from their libraries: \<^verbatim>\<open>viper.GetBool\<close> and the validator's e-mail
  pattern.\<close>

record 'db server =
  config :: Config
  database :: "'db Database"
  cookie :: SecureCookie
  viper_GetBool :: "string \<Rightarrow> bool"
  emailRegex :: "string \<Rightarrow> bool"

text \<open>
  What a handler acts on: the response writer, the state of the store, the lines given
  to \<^verbatim>\<open>log.Println\<close>, and the trace of the calls made to the store, to the cookie codec
  and to \<^verbatim>\<open>s.email\<close>, in order.  The result of an e-mail call is dropped by every
  handler, so the call is its trace entry.
\<close>

datatype call =
    Call_ValidateAPIKey string
  | Call_ConfirmAdmin string
  | Call_GetWarrior string
  | Call_CreateWarriorCorporal string string string string
  | Call_WarriorResetRequest string
  | Call_WarriorResetPassword string string
  | Call_VerifyWarriorAccount string
  | Call_UpdateWarriorProfile string string string bool
  | Call_GenerateAPIKey string string
  | Call_GetWarriorAPIKeys string
  | Call_UpdateWarriorAPIKey string string bool
  | Call_DeleteWarriorAPIKey string string
  | Call_cookie_Encode string string
  | Call_cookie_Decode string string
  | Call_SendWelcome string string string
  | Call_SendForgotPassword string string string
  | Call_SendPasswordReset string string

record 'db world =
  resp :: ResponseWriter
  db :: 'db
  logged :: "string list"
  calls :: "call list"

datatype outcome = Returned | Panicked

type_synonym 'db HandlerFunc = "Request \<Rightarrow> 'db world \<Rightarrow> outcome \<times> 'db world"

definition db_call :: "call \<Rightarrow> ('db \<Rightarrow> 'a \<times> 'db) \<Rightarrow> 'db world \<Rightarrow> 'a \<times> 'db world" where
  "db_call c m w = (case m (db w) of (res, d') \<Rightarrow> (res, w\<lparr>db := d', calls := calls w @ [c]\<rparr>))"

definition traced :: "call \<Rightarrow> 'db world \<Rightarrow> 'db world" where
  "traced c w = w\<lparr>calls := calls w @ [c]\<rparr>"

definition log_Println :: "string \<Rightarrow> 'db world \<Rightarrow> 'db world" where
  "log_Println msg w = w\<lparr>logged := logged w @ [msg]\<rparr>"

fun Error :: "error \<Rightarrow> string" where
  "Error (errors_New msg) = msg"

definition WriteHeader :: "nat \<Rightarrow> 'db world \<Rightarrow> 'db world" where
  "WriteHeader code w = w\<lparr>resp := rw_WriteHeader code (resp w)\<rparr>"

abbreviation StatusOK :: nat where "StatusOK \<equiv> 200"
abbreviation StatusBadRequest :: nat where "StatusBadRequest \<equiv> 400"
abbreviation StatusUnauthorized :: nat where "StatusUnauthorized \<equiv> 401"
abbreviation StatusInternalServerError :: nat where "StatusInternalServerError \<equiv> 500"

definition RespondWithJSON :: "nat \<Rightarrow> payload \<Rightarrow> 'db world \<Rightarrow> 'db world" where
  "RespondWithJSON code p w =
     w\<lparr>resp := rw_Write (JSON_of p)
                 (rw_WriteHeader code
                   (rw_Header_Set ''Content-Type'' ''application/json'' (resp w)))\<rparr>"

section \<open>Cookies\<close>

definition createWarriorCookie :: "'db server \<Rightarrow> bool \<Rightarrow> string \<Rightarrow> 'db world \<Rightarrow> 'db world" where
  "createWarriorCookie s isRegistered warriorID w =
     (let cookiedays = (if isRegistered then 30 else 365);
          w1 = traced (Call_cookie_Encode (SecureCookieName (config s)) warriorID) w
      in case Encode (cookie s) (SecureCookieName (config s)) warriorID of
           Inl err \<Rightarrow> WriteHeader StatusInternalServerError w1
         | Inr encoded \<Rightarrow>
             w1\<lparr>resp := http_SetCookie
                 \<lparr>cName = SecureCookieName (config s),
                  cValue = encoded,
                  cPath = PathPrefix (config s) @ ''/'',
                  cDomain = AppDomain (config s),
                  cMaxAge = 86400 * cookiedays,
                  cSecure = SecureCookieFlag (config s),
                  cHttpOnly = True,
                  cSameSite = SameSiteStrictMode\<rparr> (resp w1)\<rparr>)"

definition feCookie :: "Config \<Rightarrow> Cookie" where
  "feCookie c =
     \<lparr>cName = FrontendCookieName c, cValue = [], cPath = PathPrefix c @ ''/'', cDomain = [],
      cMaxAge = - 1, cSecure = False, cHttpOnly = False, cSameSite = SameSiteZero\<rparr>"

definition beCookie :: "Config \<Rightarrow> Cookie" where
  "beCookie c =
     \<lparr>cName = SecureCookieName c, cValue = [], cPath = PathPrefix c @ ''/'',
      cDomain = AppDomain c, cMaxAge = - 1, cSecure = SecureCookieFlag c, cHttpOnly = True,
      cSameSite = SameSiteStrictMode\<rparr>"

definition clearWarriorCookies :: "'db server \<Rightarrow> 'db world \<Rightarrow> 'db world" where
  "clearWarriorCookies s w =
     w\<lparr>resp := http_SetCookie (beCookie (config s)) (http_SetCookie (feCookie (config s)) (resp w))\<rparr>"

definition validateWarriorCookie ::
  "'db server \<Rightarrow> Request \<Rightarrow> 'db world \<Rightarrow> (error + string) \<times> 'db world" where
  "validateWarriorCookie s r w =
     (case Request_Cookie r (SecureCookieName (config s)) of
        Inr cookie_Value \<Rightarrow>
          (let w1 = traced (Call_cookie_Decode (SecureCookieName (config s)) cookie_Value) w
           in case Decode (cookie s) (SecureCookieName (config s)) cookie_Value of
                Inr v \<Rightarrow> (Inr v, w1)
              | Inl err \<Rightarrow>
                  (Inl (errors_New ''invalid warrior cookies''),
                   clearWarriorCookies s
                     (log_Println (''error in reading warrior cookie : '' @ Error err @ ''\<newline>'') w1)))
      | Inl err \<Rightarrow>
          (Inl (errors_New ''invalid warrior cookies''),
           clearWarriorCookies s
             (log_Println (''error in reading warrior cookie : '' @ Error err @ ''\<newline>'') w)))"

section \<open>Middlewares\<close>

text \<open>
  The closure a middleware returns runs a gate and then calls the wrapped handler.
  \<open>adminOnly_gate\<close> and \<open>warriorOnly_gate\<close> are the closures' bodies up to that call:
  \<open>(None, w')\<close> when the closure has returned before it, \<open>(Some warriorID, w')\<close> when
  the handler is called next, with \<open>warriorID\<close> bound in the request's context.
\<close>

definition adminOnly_gate :: "'db server \<Rightarrow> Request \<Rightarrow> 'db world \<Rightarrow> string option \<times> 'db world" where
  "adminOnly_gate s r w =
     (let apiKey = TrimSpace (Header_Get r apiKeyHeaderName)
      in case (if apiKey \<noteq> [] then
                 (case db_call (Call_ValidateAPIKey apiKey) (ValidateAPIKey (database s) apiKey) w of
                    (Inl apiKeyErr, w1) \<Rightarrow>
                      (None, WriteHeader StatusUnauthorized
                         (log_Println (''error validating api key : '' @ Error apiKeyErr @ ''\<newline>'') w1))
                  | (Inr warriorID, w1) \<Rightarrow> (Some warriorID, w1))
               else
                 (case validateWarriorCookie s r w of
                    (Inl cookieErr, w1) \<Rightarrow> (None, WriteHeader StatusUnauthorized w1)
                  | (Inr warriorID, w1) \<Rightarrow> (Some warriorID, w1))) of
           (None, w1) \<Rightarrow> (None, w1)
         | (Some warriorID, w1) \<Rightarrow>
             (case db_call (Call_ConfirmAdmin warriorID) (ConfirmAdmin (database s) warriorID) w1 of
                (Some adminErr, w2) \<Rightarrow> (None, WriteHeader StatusUnauthorized w2)
              | (None, w2) \<Rightarrow> (Some warriorID, w2)))"

definition adminOnly :: "'db server \<Rightarrow> 'db HandlerFunc \<Rightarrow> 'db HandlerFunc" where
  "adminOnly s h r w =
     (case adminOnly_gate s r w of
        (None, w') \<Rightarrow> (Returned, w')
      | (Some warriorID, w') \<Rightarrow> h (WithContext warriorID r) w')"

definition warriorOnly_gate :: "'db server \<Rightarrow> Request \<Rightarrow> 'db world \<Rightarrow> string option \<times> 'db world" where
  "warriorOnly_gate s r w =
     (let apiKey = TrimSpace (Header_Get r apiKeyHeaderName)
      in case (if apiKey \<noteq> [] then
                 (case db_call (Call_ValidateAPIKey apiKey) (ValidateAPIKey (database s) apiKey) w of
                    (Inl apiKeyErr, w1) \<Rightarrow>
                      (None, WriteHeader StatusUnauthorized
                         (log_Println (''error validating api key : '' @ Error apiKeyErr @ ''\<newline>'') w1))
                  | (Inr warriorID, w1) \<Rightarrow> (Some warriorID, w1))
               else
                 (case validateWarriorCookie s r w of
                    (Inl cookieErr, w1) \<Rightarrow> (None, WriteHeader StatusUnauthorized w1)
                  | (Inr warriorID, w1) \<Rightarrow> (Some warriorID, w1))) of
           (None, w1) \<Rightarrow> (None, w1)
         | (Some warriorID, w1) \<Rightarrow>
             (case db_call (Call_GetWarrior warriorID) (GetWarrior (database s) warriorID) w1 of
                (Inl warErr, w2) \<Rightarrow>
                  (None, WriteHeader StatusUnauthorized
                     (clearWarriorCookies s
                        (log_Println (''error finding warrior : '' @ Error warErr @ ''\<newline>'') w2)))
              | (Inr _, w2) \<Rightarrow> (Some warriorID, w2)))"

definition warriorOnly :: "'db server \<Rightarrow> 'db HandlerFunc \<Rightarrow> 'db HandlerFunc" where
  "warriorOnly s h r w =
     (case warriorOnly_gate s r w of
        (None, w') \<Rightarrow> (Returned, w')
      | (Some warriorID, w') \<Rightarrow> h (WithContext warriorID r) w')"

text \<open>
  Both closures begin with the same block, which resolves the caller's credential:
  by API key when the trimmed header is not empty, by the session cookie otherwise.
  \<open>credential\<close> is that block up to its early returns: \<open>Inl\<close> where the closure
  answers 401 and returns, \<open>Inr warriorID\<close> where it goes on.
\<close>

definition credential :: "'db server \<Rightarrow> Request \<Rightarrow> 'db world \<Rightarrow> (error + string) \<times> 'db world" where
  "credential s r w =
     (let apiKey = TrimSpace (Header_Get r apiKeyHeaderName)
      in if apiKey \<noteq> [] then
           (case db_call (Call_ValidateAPIKey apiKey) (ValidateAPIKey (database s) apiKey) w of
              (Inl apiKeyErr, w1) \<Rightarrow>
                (Inl apiKeyErr,
                 log_Println (''error validating api key : '' @ Error apiKeyErr @ ''\<newline>'') w1)
            | (Inr warriorID, w1) \<Rightarrow> (Inr warriorID, w1))
         else validateWarriorCookie s r w)"

text \<open>The value the handlers read under a key of the body, \<^verbatim>\<open>keyVal["k"]\<close> after
  \<^verbatim>\<open>json.Unmarshal(body, &keyVal)\<close> into a \<^verbatim>\<open>map[string]string\<close>.\<close>

definition body_field :: "Request \<Rightarrow> string \<Rightarrow> string" where
  "body_field r k = index_strings (fst (Unmarshal_strings (reqBody r))) k"

section \<open>Handlers\<close>

text \<open>\<^verbatim>\<open>handleWarriorEnlist\<close>.  The result of \<^verbatim>\<open>validateWarriorCookie\<close> is used for its
  identity only: on an error \<^verbatim>\<open>ActiveWarriorID\<close> is the empty string.\<close>

definition handleWarriorEnlist :: "'db server \<Rightarrow> 'db HandlerFunc" where
  "handleWarriorEnlist s r w =
     (if \<not> viper_GetBool s ''config.allow_registration'' then
        (Returned, WriteHeader StatusBadRequest w)
      else
        case Unmarshal_strings (reqBody r) of
          (keyVal, Some jsonErr) \<Rightarrow> (Returned, WriteHeader StatusBadRequest w)
        | (keyVal, None) \<Rightarrow>
            (case validateWarriorCookie s r w of
               (cookieRes, w1) \<Rightarrow>
                 (let ActiveWarriorID = (case cookieRes of Inl err \<Rightarrow> [] | Inr v \<Rightarrow> v)
                  in case ValidateWarriorAccount (emailRegex s)
                            (index_strings keyVal ''warriorName'')
                            (index_strings keyVal ''warriorEmail'')
                            (index_strings keyVal ''warriorPassword1'')
                            (index_strings keyVal ''warriorPassword2'') of
                       (WarriorName, WarriorEmail, WarriorPassword, Some accountErr) \<Rightarrow>
                         (Returned, WriteHeader StatusBadRequest w1)
                     | (WarriorName, WarriorEmail, WarriorPassword, None) \<Rightarrow>
                         (case db_call
                                 (Call_CreateWarriorCorporal WarriorName WarriorEmail
                                    WarriorPassword ActiveWarriorID)
                                 (CreateWarriorCorporal (database s) WarriorName WarriorEmail
                                    WarriorPassword ActiveWarriorID) w1 of
                            (Inl err, w2) \<Rightarrow> (Returned, WriteHeader StatusInternalServerError w2)
                          | (Inr (newWarrior, VerifyID), w2) \<Rightarrow>
                              (Returned,
                               RespondWithJSON StatusOK (Marshal_Warrior newWarrior)
                                 (traced (Call_SendWelcome WarriorName WarriorEmail VerifyID)
                                    (createWarriorCookie s True (WarriorID newWarrior) w2)))))))"

definition handleForgotPassword :: "'db server \<Rightarrow> 'db HandlerFunc" where
  "handleForgotPassword s r w =
     (let keyVal = fst (Unmarshal_strings (reqBody r));
          WarriorEmail = index_strings keyVal ''warriorEmail''
      in case db_call (Call_WarriorResetRequest WarriorEmail)
                (WarriorResetRequest (database s) WarriorEmail) w of
           (Inr (ResetID, WarriorName), w1) \<Rightarrow>
             (Returned,
              WriteHeader StatusOK
                (traced (Call_SendForgotPassword WarriorName WarriorEmail ResetID) w1))
         | (Inl resetErr, w1) \<Rightarrow> (Returned, WriteHeader StatusOK w1))"

definition handleResetPassword :: "'db server \<Rightarrow> 'db HandlerFunc" where
  "handleResetPassword s r w =
     (let keyVal = fst (Unmarshal_strings (reqBody r));
          ResetID = index_strings keyVal ''resetId''
      in case ValidateWarriorPassword
                (index_strings keyVal ''warriorPassword1'')
                (index_strings keyVal ''warriorPassword2'') of
           (WarriorPassword, Some passwordErr) \<Rightarrow> (Returned, WriteHeader StatusBadRequest w)
         | (WarriorPassword, None) \<Rightarrow>
             (case db_call (Call_WarriorResetPassword ResetID WarriorPassword)
                     (WarriorResetPassword (database s) ResetID WarriorPassword) w of
                (Inl resetErr, w1) \<Rightarrow>
                  (Returned,
                   WriteHeader StatusInternalServerError
                     (log_Println
                        (''error attempting to reset warrior password : '' @ Error resetErr @ ''\<newline>'')
                        w1))
              | (Inr (WarriorName, WarriorEmail), w1) \<Rightarrow>
                  (Returned, traced (Call_SendPasswordReset WarriorName WarriorEmail) w1)))"

text \<open>\<^verbatim>\<open>handleWarriorProfileUpdate\<close>.  The two one-result type assertions come first;
  the third has the two-result form and yields \<^verbatim>\<open>false\<close> where it fails.\<close>

definition handleWarriorProfileUpdate :: "'db server \<Rightarrow> 'db HandlerFunc" where
  "handleWarriorProfileUpdate s r w =
     (let vars = Vars r;
          keyVal = fst (Unmarshal_values (reqBody r))
      in case assert_string keyVal ''warriorName'' of
           None \<Rightarrow> (Panicked, w)
         | Some WarriorName \<Rightarrow>
         (case assert_string keyVal ''warriorAvatar'' of
           None \<Rightarrow> (Panicked, w)
         | Some WarriorAvatar \<Rightarrow>
         (let NotificationsEnabled =
                (case assert_bool keyVal ''notificationsEnabled'' of None \<Rightarrow> False | Some b \<Rightarrow> b);
              WarriorID' = index_strings vars ''id''
          in case ctxWarriorID r of
               None \<Rightarrow> (Panicked, w)
             | Some warriorCookieID \<Rightarrow>
                 if WarriorID' \<noteq> warriorCookieID then
                   (Returned, WriteHeader StatusUnauthorized w)
                 else
                   (case db_call
                           (Call_UpdateWarriorProfile WarriorID' WarriorName WarriorAvatar
                              NotificationsEnabled)
                           (UpdateWarriorProfile (database s) WarriorID' WarriorName WarriorAvatar
                              NotificationsEnabled) w of
                      (Some updateErr, w1) \<Rightarrow>
                        (Returned,
                         WriteHeader StatusInternalServerError
                           (log_Println
                              (''error attempting to update warrior profile : ''
                                 @ Error updateErr @ ''\<newline>'') w1))
                    | (None, w1) \<Rightarrow>
                        (case db_call (Call_GetWarrior WarriorID')
                                (GetWarrior (database s) WarriorID') w1 of
                           (Inl warErr, w2) \<Rightarrow>
                             (Returned,
                              WriteHeader StatusInternalServerError
                                (log_Println
                                   (''error reloading warrior after update : ''
                                      @ Error warErr @ ''\<newline>'') w2))
                         | (Inr warrior, w2) \<Rightarrow>
                             (Returned, RespondWithJSON StatusOK (Marshal_Warrior warrior) w2))))))"

definition handleAccountVerification :: "'db server \<Rightarrow> 'db HandlerFunc" where
  "handleAccountVerification s r w =
     (let keyVal = fst (Unmarshal_strings (reqBody r));
          VerifyID = index_strings keyVal ''verifyId''
      in case db_call (Call_VerifyWarriorAccount VerifyID)
                (VerifyWarriorAccount (database s) VerifyID) w of
           (Some verifyErr, w1) \<Rightarrow>
             (Returned,
              WriteHeader StatusInternalServerError
                (log_Println
                   (''error attempting to verify warrior account : '' @ Error verifyErr @ ''\<newline>'')
                   w1))
         | (None, w1) \<Rightarrow> (Returned, w1))"

subsection \<open>API key handlers\<close>

definition handleAPIKeyGenerate :: "'db server \<Rightarrow> 'db HandlerFunc" where
  "handleAPIKeyGenerate s r w =
     (let vars = Vars r;
          keyVal = fst (Unmarshal_values (reqBody r))
      in case assert_string keyVal ''name'' of
           None \<Rightarrow> (Panicked, w)
         | Some APIKeyName \<Rightarrow>
             (let WarriorID' = index_strings vars ''id''
              in case ctxWarriorID r of
                   None \<Rightarrow> (Panicked, w)
                 | Some warriorCookieID \<Rightarrow>
                     if WarriorID' \<noteq> warriorCookieID then
                       (Returned, WriteHeader StatusUnauthorized w)
                     else
                       (case db_call (Call_GenerateAPIKey WarriorID' APIKeyName)
                               (GenerateAPIKey (database s) WarriorID' APIKeyName) w of
                          (Inl keyErr, w1) \<Rightarrow>
                            (Returned,
                             WriteHeader StatusInternalServerError
                               (log_Println
                                  (''error attempting to generate api key : ''
                                     @ Error keyErr @ ''\<newline>'') w1))
                        | (Inr APIKey', w1) \<Rightarrow>
                            (Returned, RespondWithJSON StatusOK (Marshal_APIKey APIKey') w1))))"

definition handleWarriorAPIKeys :: "'db server \<Rightarrow> 'db HandlerFunc" where
  "handleWarriorAPIKeys s r w =
     (let vars = Vars r;
          WarriorID' = index_strings vars ''id''
      in case ctxWarriorID r of
           None \<Rightarrow> (Panicked, w)
         | Some warriorCookieID \<Rightarrow>
             if WarriorID' \<noteq> warriorCookieID then
               (Returned, WriteHeader StatusUnauthorized w)
             else
               (case db_call (Call_GetWarriorAPIKeys WarriorID')
                       (GetWarriorAPIKeys (database s) WarriorID') w of
                  (Inl keysErr, w1) \<Rightarrow>
                    (Returned,
                     WriteHeader StatusInternalServerError
                       (log_Println (''error retrieving api keys : '' @ Error keysErr @ ''\<newline>'') w1))
                | (Inr APIKeys, w1) \<Rightarrow>
                    (Returned, RespondWithJSON StatusOK (Marshal_APIKeys APIKeys) w1)))"

definition handleWarriorAPIKeyUpdate :: "'db server \<Rightarrow> 'db HandlerFunc" where
  "handleWarriorAPIKeyUpdate s r w =
     (let vars = Vars r;
          WarriorID' = index_strings vars ''id''
      in case ctxWarriorID r of
           None \<Rightarrow> (Panicked, w)
         | Some warriorCookieID \<Rightarrow>
             if WarriorID' \<noteq> warriorCookieID then
               (Returned, WriteHeader StatusUnauthorized w)
             else
               (let APK = index_strings vars ''keyID'';
                    keyVal = fst (Unmarshal_values (reqBody r))
                in case assert_bool keyVal ''active'' of
                     None \<Rightarrow> (Panicked, w)
                   | Some active \<Rightarrow>
                       (case db_call (Call_UpdateWarriorAPIKey WarriorID' APK active)
                               (UpdateWarriorAPIKey (database s) WarriorID' APK active) w of
                          (Inl keysErr, w1) \<Rightarrow>
                            (Returned,
                             WriteHeader StatusInternalServerError
                               (log_Println (''error updating api key : '' @ Error keysErr @ ''\<newline>'')
                                  w1))
                        | (Inr APIKeys, w1) \<Rightarrow>
                            (Returned, RespondWithJSON StatusOK (Marshal_APIKeys APIKeys) w1))))"

definition handleWarriorAPIKeyDelete :: "'db server \<Rightarrow> 'db HandlerFunc" where
  "handleWarriorAPIKeyDelete s r w =
     (let vars = Vars r;
          WarriorID' = index_strings vars ''id''
      in case ctxWarriorID r of
           None \<Rightarrow> (Panicked, w)
         | Some warriorCookieID \<Rightarrow>
             if WarriorID' \<noteq> warriorCookieID then
               (Returned, WriteHeader StatusUnauthorized w)
             else
               (let APK = index_strings vars ''keyID''
                in case db_call (Call_DeleteWarriorAPIKey WarriorID' APK)
                        (DeleteWarriorAPIKey (database s) WarriorID' APK) w of
                     (Inl keysErr, w1) \<Rightarrow>
                       (Returned,
                        WriteHeader StatusInternalServerError
                          (log_Println (''error deleting api key : '' @ Error keysErr @ ''\<newline>'') w1))
                   | (Inr APIKeys, w1) \<Rightarrow>
                       (Returned, RespondWithJSON StatusOK (Marshal_APIKeys APIKeys) w1)))"

section \<open>A store\<close>

text \<open>
  Modelled from the spec: a store in the words of the data model (section 3), for the
  operations of pkg/database, which is not among the sources.  It holds the members, the
  API keys and the pending verification and reset tokens (token ID and Member ID).
\<close>

record Store =
  members :: "Warrior list"
  apiKeys :: "APIKey list"
  verifyTokens :: "(string \<times> string) list"
  resetTokens :: "(string \<times> string) list"

text \<open>
  Modelled from the spec: \<^verbatim>\<open>verify(tokenID)\<close> of section 4.4 with the Verification Token
  of section 3, for \<^verbatim>\<open>database.VerifyWarriorAccount\<close>, which is not among the sources.
  Consuming a pending token sets the verified flag of its member and invalidates the
  token; a token that is unknown or already consumed is an error.
\<close>

definition store_VerifyWarriorAccount :: "string \<Rightarrow> Store \<Rightarrow> error option \<times> Store" where
  "store_VerifyWarriorAccount VerifyID d =
     (case map_of (verifyTokens d) VerifyID of
        None \<Rightarrow> (Some (errors_New ''verification token not found''), d)
      | Some memberID \<Rightarrow>
          (None,
           d\<lparr>members := map (\<lambda>u. if WarriorID u = memberID then u\<lparr>verified := True\<rparr> else u) (members d),
             verifyTokens := filter (\<lambda>(t, m). t \<noteq> VerifyID) (verifyTokens d)\<rparr>))"

text \<open>Modelled from the spec: the lookups of the store by API key, by Member ID and by
  e-mail address (sections 4.2, 4.3 and 4.4), for the examples below.\<close>

definition store_ValidateAPIKey :: "string \<Rightarrow> Store \<Rightarrow> (error + string) \<times> Store" where
  "store_ValidateAPIKey apk d =
     (case find (\<lambda>k. keySecret k = apk \<and> keyActive k) (apiKeys d) of
        None \<Rightarrow> (Inl (errors_New ''active API Key not found''), d)
      | Some k \<Rightarrow> (Inr (keyWarriorID k), d))"

definition store_GetWarrior :: "string \<Rightarrow> Store \<Rightarrow> (error + Warrior) \<times> Store" where
  "store_GetWarrior warriorID d =
     (case find (\<lambda>u. WarriorID u = warriorID) (members d) of
        None \<Rightarrow> (Inl (errors_New ''warrior not found''), d)
      | Some u \<Rightarrow> (Inr u, d))"

definition store_ConfirmAdmin :: "string \<Rightarrow> Store \<Rightarrow> error option \<times> Store" where
  "store_ConfirmAdmin warriorID d =
     (case find (\<lambda>u. WarriorID u = warriorID \<and> role u = Admin) (members d) of
        None \<Rightarrow> (Some (errors_New ''warrior is not an admin''), d)
      | Some u \<Rightarrow> (None, d))"

definition store_WarriorResetRequest :: "string \<Rightarrow> Store \<Rightarrow> (error + string \<times> string) \<times> Store" where
  "store_WarriorResetRequest email d =
     (case find (\<lambda>u. memberEmail u = email) (members d) of
        None \<Rightarrow> (Inl (errors_New ''warrior email not found''), d)
      | Some u \<Rightarrow>
          (Inr (''reset-'' @ WarriorID u, displayName u),
           d\<lparr>resetTokens := (''reset-'' @ WarriorID u, WarriorID u) # resetTokens d\<rparr>))"

definition unavailable :: error where
  "unavailable = errors_New ''unavailable''"

definition example_database :: "Store Database" where
  "example_database =
     \<lparr>ValidateAPIKey = store_ValidateAPIKey,
      ConfirmAdmin = store_ConfirmAdmin,
      GetWarrior = store_GetWarrior,
      CreateWarriorCorporal = (\<lambda>name email pwd active d. (Inl unavailable, d)),
      WarriorResetRequest = store_WarriorResetRequest,
      WarriorResetPassword = (\<lambda>resetID pwd d. (Inl unavailable, d)),
      VerifyWarriorAccount = store_VerifyWarriorAccount,
      UpdateWarriorProfile = (\<lambda>warriorID name avatar notify d. (Some unavailable, d)),
      GenerateAPIKey = (\<lambda>warriorID name d. (Inl unavailable, d)),
      GetWarriorAPIKeys = (\<lambda>warriorID d. (Inl unavailable, d)),
      UpdateWarriorAPIKey = (\<lambda>warriorID keyID active d. (Inl unavailable, d)),
      DeleteWarriorAPIKey = (\<lambda>warriorID keyID d. (Inl unavailable, d))\<rparr>"

section \<open>Example requests\<close>

definition alice :: Warrior where
  "alice =
     \<lparr>WarriorID = ''alice-id'', displayName = ''Alice'', memberEmail = ''alice@example.com'',
      role = Registered, avatarSeed = [], verified = False, notificationPreference = True\<rparr>"

definition bob :: Warrior where
  "bob =
     \<lparr>WarriorID = ''bob-id'', displayName = ''Bob'', memberEmail = ''bob@example.com'',
      role = Admin, avatarSeed = [], verified = True, notificationPreference = True\<rparr>"

definition example_store :: Store where
  "example_store =
     \<lparr>members = [alice, bob],
      apiKeys =
        [\<lparr>keyID = ''k1'', keyWarriorID = ''bob-id'', keyName = ''ci'', keySecret = ''s3cr3t'',
          keyActive = True, keyCreatedDate = ''2021-01-01''\<rparr>],
      verifyTokens = [(''v-1'', ''alice-id'')],
      resetTokens = []\<rparr>"

text \<open>A stand-in for the cookie codec: a value is valid when it carries the prefix.\<close>

definition example_cookie :: SecureCookie where
  "example_cookie =
     \<lparr>Encode = (\<lambda>name v. Inr (''enc:'' @ v)),
      Decode = (\<lambda>name v. if take 4 v = ''enc:'' then Inr (drop 4 v)
                          else Inl (errors_New ''securecookie: the value is not valid''))\<rparr>"

definition example_server :: "Store server" where
  "example_server =
     \<lparr>config =
        \<lparr>SecureCookieName = ''warrior'', FrontendCookieName = ''warriorId'', PathPrefix = [],
         AppDomain = ''thunderdome.dev'', SecureCookieFlag = True, AvatarService = ''goadorable''\<rparr>,
      database = example_database,
      cookie = example_cookie,
      viper_GetBool = (\<lambda>k. k = ''config.allow_registration''),
      emailRegex = (\<lambda>e. CHR ''@'' \<in> set e)\<rparr>"

definition NewRequest :: Request where
  "NewRequest =
     \<lparr>reqHeader = (\<lambda>k. []), reqCookies = [], Vars = Map.empty, reqBody = None,
      ctxWarriorID = None\<rparr>"

definition NewWorld :: "'db \<Rightarrow> 'db world" where
  "NewWorld d = \<lparr>resp = NewResponseWriter, db = d, logged = [], calls = []\<rparr>"

text \<open>A handler that answers 200 with the identity bound in the context.\<close>

definition whoami :: "'db HandlerFunc" where
  "whoami r w =
     (case ctxWarriorID r of
        None \<Rightarrow> (Panicked, w)
      | Some warriorID \<Rightarrow>
          (Returned, w\<lparr>resp := rw_Write (Bytes warriorID) (rw_WriteHeader StatusOK (resp w))\<rparr>))"

text \<open>A request with a valid session cookie of Bob's and an API-key header that holds
  one no-break space (U+00A0, the bytes C2 A0).\<close>

definition blank_key_request :: Request where
  "blank_key_request =
     NewRequest
       \<lparr>reqHeader := (\<lambda>k. if k = apiKeyHeaderName then [[CHR 0xC2, CHR 0xA0]] else []),
        reqCookies := [(''warrior'', ''enc:bob-id'')]\<rparr>"

text \<open>A request with a valid session cookie of Bob's and an API key that the store does
  not know.\<close>

definition bad_key_request :: Request where
  "bad_key_request =
     NewRequest
       \<lparr>reqHeader := (\<lambda>k. if k = apiKeyHeaderName then [''wrong''] else []),
        reqCookies := [(''warrior'', ''enc:bob-id'')]\<rparr>"

text \<open>A request without an API-key header whose session cookie does not decode.\<close>

definition tampered_cookie_request :: Request where
  "tampered_cookie_request = NewRequest\<lparr>reqCookies := [(''warrior'', ''bogus'')]\<rparr>"


text \<open>Bodies of the account requests used in the examples.\<close>

definition forgot_request :: "string \<Rightarrow> Request" where
  "forgot_request email = NewRequest\<lparr>reqBody := Some (JObject [(''warriorEmail'', JString email)])\<rparr>"

definition reset_request :: "string \<Rightarrow> string \<Rightarrow> string \<Rightarrow> Request" where
  "reset_request resetID pwd1 pwd2 =
     NewRequest\<lparr>reqBody := Some (JObject [(''resetId'', JString resetID),
        (''warriorPassword1'', JString pwd1), (''warriorPassword2'', JString pwd2)])\<rparr>"

definition verify_request :: "string \<Rightarrow> Request" where
  "verify_request verifyID = NewRequest\<lparr>reqBody := Some (JObject [(''verifyId'', JString verifyID)])\<rparr>"

definition enlist_request :: "string \<Rightarrow> string \<Rightarrow> string \<Rightarrow> string \<Rightarrow> Request" where
  "enlist_request name email pwd1 pwd2 =
     NewRequest\<lparr>reqBody := Some (JObject [(''warriorName'', JString name),
        (''warriorEmail'', JString email), (''warriorPassword1'', JString pwd1),
        (''warriorPassword2'', JString pwd2)])\<rparr>"

text \<open>Requests that have passed \<^verbatim>\<open>warriorOnly\<close> as Bob and name Alice in the path: one
  with the body \<^verbatim>\<open>{}\<close>, one whose body has a name and no avatar.\<close>

definition foreign_key_request :: Request where
  "foreign_key_request =
     NewRequest\<lparr>Vars := [''id'' \<mapsto> ''alice-id''], reqBody := Some (JObject []),
                ctxWarriorID := Some ''bob-id''\<rparr>"

definition foreign_profile_request :: Request where
  "foreign_profile_request =
     NewRequest\<lparr>Vars := [''id'' \<mapsto> ''alice-id''],
                reqBody := Some (JObject [(''warriorName'', JString ''Mallory'')]),
                ctxWarriorID := Some ''bob-id''\<rparr>"

section \<open>Proof support\<close>

lemmas rw_defs = rw_WriteHeader_def rw_Write_def rw_Header_Set_def http_SetCookie_def status_def
lemmas world_defs = db_call_def traced_def log_Println_def WriteHeader_def RespondWithJSON_def
  clearWarriorCookies_def

lemma adminOnly_gate_credential:
  "adminOnly_gate s r w =
     (case credential s r w of
        (Inl e, w1) \<Rightarrow> (None, WriteHeader StatusUnauthorized w1)
      | (Inr warriorID, w1) \<Rightarrow>
          (case db_call (Call_ConfirmAdmin warriorID) (ConfirmAdmin (database s) warriorID) w1 of
             (Some adminErr, w2) \<Rightarrow> (None, WriteHeader StatusUnauthorized w2)
           | (None, w2) \<Rightarrow> (Some warriorID, w2)))"
  by (simp add: adminOnly_gate_def credential_def Let_def split: prod.splits sum.splits option.splits)

lemma warriorOnly_gate_credential:
  "warriorOnly_gate s r w =
     (case credential s r w of
        (Inl e, w1) \<Rightarrow> (None, WriteHeader StatusUnauthorized w1)
      | (Inr warriorID, w1) \<Rightarrow>
          (case db_call (Call_GetWarrior warriorID) (GetWarrior (database s) warriorID) w1 of
             (Inl warErr, w2) \<Rightarrow>
               (None, WriteHeader StatusUnauthorized
                  (clearWarriorCookies s
                     (log_Println (''error finding warrior : '' @ Error warErr @ ''\<newline>'') w2)))
           | (Inr _, w2) \<Rightarrow> (Some warriorID, w2)))"
  by (simp add: warriorOnly_gate_def credential_def Let_def split: prod.splits sum.splits option.splits)



lemmas example_defs = example_server_def example_database_def example_cookie_def example_store_def
  alice_def bob_def NewRequest_def NewWorld_def NewResponseWriter_def whoami_def
  store_ValidateAPIKey_def store_GetWarrior_def store_ConfirmAdmin_def
  store_WarriorResetRequest_def store_VerifyWarriorAccount_def unavailable_def

lemma TrimSpace_nbsp: "TrimSpace [CHR 0xC2, CHR 0xA0] = []"
  by (simp add: TrimSpace_def space_runes_def leading_space_def)

lemma TrimSpace_wrong: "TrimSpace ''wrong'' = ''wrong''"
  by (simp add: TrimSpace_def space_runes_def leading_space_def)

lemma TrimSpace_space: "TrimSpace '' '' = []"
  by (simp add: TrimSpace_def space_runes_def leading_space_def)

lemma Header_Get_cookies [simp]: "Header_Get (r\<lparr>reqCookies := cs\<rparr>) k = Header_Get r k"
  by (simp add: Header_Get_def)

section \<open>Credential resolution\<close>

text \<open>
  Claim C1 says that a request whose API-key header is present and non-empty is resolved
  by the API-key lookup alone.  The gates test the header after \<^verbatim>\<open>strings.TrimSpace\<close>:
  a header that holds white space only is present and non-empty, and the gates resolve
  the request by its cookie, here with a key value that the store would refuse.
\<close>

theorem blank_key_header_falls_back_to_cookie:
  "Header_Get blank_key_request apiKeyHeaderName \<noteq> []
   \<and> fst (ValidateAPIKey (database example_server)
            (Header_Get blank_key_request apiKeyHeaderName) example_store)
       = Inl (errors_New ''active API Key not found'')
   \<and> fst (warriorOnly example_server whoami blank_key_request (NewWorld example_store)) = Returned
   \<and> status (resp (snd (warriorOnly example_server whoami blank_key_request (NewWorld example_store)))) = 200
   \<and> Body (resp (snd (warriorOnly example_server whoami blank_key_request (NewWorld example_store))))
       = [Bytes ''bob-id'']
   \<and> calls (snd (warriorOnly example_server whoami blank_key_request (NewWorld example_store)))
       = [Call_cookie_Decode ''warrior'' ''enc:bob-id'', Call_GetWarrior ''bob-id'']
   \<and> status (resp (snd (adminOnly example_server whoami blank_key_request (NewWorld example_store)))) = 200
   \<and> calls (snd (adminOnly example_server whoami blank_key_request (NewWorld example_store)))
       = [Call_cookie_Decode ''warrior'' ''enc:bob-id'', Call_ConfirmAdmin ''bob-id'']"
  by (simp add: blank_key_request_def Header_Get_def apiKeyHeaderName_def TrimSpace_nbsp
      warriorOnly_def adminOnly_def warriorOnly_gate_def adminOnly_gate_def
      validateWarriorCookie_def Request_Cookie_def WithContext_def
      example_defs world_defs rw_defs)

text \<open>
  Claim C1, amended: for every request whose API-key header is not empty after
  \<^verbatim>\<open>strings.TrimSpace\<close>, both gates resolve the credential by \<^verbatim>\<open>ValidateAPIKey\<close> alone.
  If the lookup fails, both answer 401 and return without calling the handler, having
  made that one call and set no cookie; if it succeeds, the calls of the gates are the
  lookup and the role check; and in every case the result of a gate does not depend on
  the cookies of the request or on the cookie codec.
\<close>

theorem api_key_resolution_never_reads_cookie:
  fixes s :: "'db server"
  assumes key: "TrimSpace (Header_Get r apiKeyHeaderName) = apiKey" "apiKey \<noteq> []"
    and fresh: "\<not> wroteHeader (resp w)"
  shows
    "(\<forall>e d'. ValidateAPIKey (database s) apiKey (db w) = (Inl e, d') \<longrightarrow>
        (let W = WriteHeader StatusUnauthorized
                   (log_Println (''error validating api key : '' @ Error e @ ''\<newline>'')
                      (w\<lparr>db := d', calls := calls w @ [Call_ValidateAPIKey apiKey]\<rparr>))
         in warriorOnly s h r w = (Returned, W) \<and> adminOnly s h r w = (Returned, W)
            \<and> status (resp W) = 401 \<and> sentHeader (resp W) = Header (resp w)))
     \<and> (\<forall>warriorID d'. ValidateAPIKey (database s) apiKey (db w) = (Inr warriorID, d') \<longrightarrow>
           calls (snd (warriorOnly_gate s r w))
             = calls w @ [Call_ValidateAPIKey apiKey, Call_GetWarrior warriorID]
         \<and> calls (snd (adminOnly_gate s r w))
             = calls w @ [Call_ValidateAPIKey apiKey, Call_ConfirmAdmin warriorID])
     \<and> warriorOnly_gate (s\<lparr>cookie := c\<rparr>) (r\<lparr>reqCookies := cs\<rparr>) w = warriorOnly_gate s r w
     \<and> adminOnly_gate (s\<lparr>cookie := c\<rparr>) (r\<lparr>reqCookies := cs\<rparr>) w = adminOnly_gate s r w"
  unfolding Let_def
proof (intro conjI allI impI)
  fix e d'
  assume "ValidateAPIKey (database s) apiKey (db w) = (Inl e, d')"
  then show "warriorOnly s h r w =
      (Returned, WriteHeader StatusUnauthorized
         (log_Println (''error validating api key : '' @ Error e @ ''\<newline>'')
            (w\<lparr>db := d', calls := calls w @ [Call_ValidateAPIKey apiKey]\<rparr>)))"
    using key by (simp add: warriorOnly_def warriorOnly_gate_def db_call_def)
next
  fix e d'
  assume "ValidateAPIKey (database s) apiKey (db w) = (Inl e, d')"
  then show "adminOnly s h r w =
      (Returned, WriteHeader StatusUnauthorized
         (log_Println (''error validating api key : '' @ Error e @ ''\<newline>'')
            (w\<lparr>db := d', calls := calls w @ [Call_ValidateAPIKey apiKey]\<rparr>)))"
    using key by (simp add: adminOnly_def adminOnly_gate_def db_call_def)
next
  fix e d'
  show "status (resp (WriteHeader StatusUnauthorized
         (log_Println (''error validating api key : '' @ Error e @ ''\<newline>'')
            (w\<lparr>db := d', calls := calls w @ [Call_ValidateAPIKey apiKey]\<rparr>)))) = 401"
    using fresh by (simp add: world_defs rw_defs)
next
  fix e d'
  show "sentHeader (resp (WriteHeader StatusUnauthorized
         (log_Println (''error validating api key : '' @ Error e @ ''\<newline>'')
            (w\<lparr>db := d', calls := calls w @ [Call_ValidateAPIKey apiKey]\<rparr>)))) = Header (resp w)"
    using fresh by (simp add: world_defs rw_defs)
next
  fix warriorID d'
  assume "ValidateAPIKey (database s) apiKey (db w) = (Inr warriorID, d')"
  then show "calls (snd (warriorOnly_gate s r w))
             = calls w @ [Call_ValidateAPIKey apiKey, Call_GetWarrior warriorID]"
    using key
    by (simp add: warriorOnly_gate_def world_defs rw_defs split: prod.splits sum.splits)
next
  fix warriorID d'
  assume "ValidateAPIKey (database s) apiKey (db w) = (Inr warriorID, d')"
  then show "calls (snd (adminOnly_gate s r w))
             = calls w @ [Call_ValidateAPIKey apiKey, Call_ConfirmAdmin warriorID]"
    using key
    by (simp add: adminOnly_gate_def world_defs rw_defs split: prod.splits option.splits)
next
  show "warriorOnly_gate (s\<lparr>cookie := c\<rparr>) (r\<lparr>reqCookies := cs\<rparr>) w = warriorOnly_gate s r w"
    using key by (simp add: warriorOnly_gate_def clearWarriorCookies_def
        split: prod.splits sum.splits option.splits)
next
  show "adminOnly_gate (s\<lparr>cookie := c\<rparr>) (r\<lparr>reqCookies := cs\<rparr>) w = adminOnly_gate s r w"
    using key by (simp add: adminOnly_gate_def split: prod.splits sum.splits option.splits)
qed

text \<open>Claim C1, witness: an unknown API key beside a valid session cookie of Bob's.\<close>

theorem unknown_key_with_valid_cookie_is_refused:
  "TrimSpace (Header_Get bad_key_request apiKeyHeaderName) = ''wrong''
   \<and> Request_Cookie bad_key_request ''warrior'' = Inr ''enc:bob-id''
   \<and> Decode example_cookie ''warrior'' ''enc:bob-id'' = Inr ''bob-id''
   \<and> warriorOnly example_server whoami bad_key_request (NewWorld example_store)
       = (Returned,
          \<lparr>resp = \<lparr>Header = [], wroteHeader = True, StatusCode = 401, sentHeader = [], Body = []\<rparr>,
           db = example_store,
           logged = [''error validating api key : active API Key not found\<newline>''],
           calls = [Call_ValidateAPIKey ''wrong'']\<rparr>)
   \<and> adminOnly example_server whoami bad_key_request (NewWorld example_store)
       = warriorOnly example_server whoami bad_key_request (NewWorld example_store)"
proof -
  have k: "TrimSpace (Header_Get bad_key_request apiKeyHeaderName) = ''wrong''"
    by (simp add: bad_key_request_def Header_Get_def apiKeyHeaderName_def TrimSpace_wrong NewRequest_def)
  have f: "\<not> wroteHeader (resp (NewWorld example_store))"
    by (simp add: NewWorld_def NewResponseWriter_def)
  have v: "ValidateAPIKey (database example_server) ''wrong'' (db (NewWorld example_store))
             = (Inl (errors_New ''active API Key not found''), example_store)"
    by (simp add: example_defs)
  have c1: "Request_Cookie bad_key_request ''warrior'' = Inr ''enc:bob-id''"
    by (simp add: bad_key_request_def Request_Cookie_def NewRequest_def)
  have c2: "Decode example_cookie ''warrior'' ''enc:bob-id'' = Inr ''bob-id''"
    by (simp add: example_cookie_def)
  from api_key_resolution_never_reads_cookie [OF k _ f, of example_server whoami example_cookie "[]"] v
  have main: "warriorOnly example_server whoami bad_key_request (NewWorld example_store)
       = (Returned,
          \<lparr>resp = \<lparr>Header = [], wroteHeader = True, StatusCode = 401, sentHeader = [], Body = []\<rparr>,
           db = example_store,
           logged = [''error validating api key : active API Key not found\<newline>''],
           calls = [Call_ValidateAPIKey ''wrong'']\<rparr>)
     \<and> adminOnly example_server whoami bad_key_request (NewWorld example_store)
       = warriorOnly example_server whoami bad_key_request (NewWorld example_store)"
    by (simp add: Let_def NewWorld_def NewResponseWriter_def world_defs rw_defs)
  show ?thesis
    by (rule conjI [OF k conjI [OF c1 conjI [OF c2 main]]])
qed

lemma TrimSpace_Nil: "TrimSpace [] = []"
  by (simp add: TrimSpace_def)

lemma validateWarriorCookie_failure:
  assumes "(\<exists>e. Request_Cookie r (SecureCookieName (config s)) = Inl e)
      \<or> (\<exists>v e. Request_Cookie r (SecureCookieName (config s)) = Inr v
             \<and> Decode (cookie s) (SecureCookieName (config s)) v = Inl e)"
  shows "fst (validateWarriorCookie s r w) = Inl (errors_New ''invalid warrior cookies'')"
    and "resp (snd (validateWarriorCookie s r w))
          = (resp w)\<lparr>Header := Header (resp w)
               @ [SetCookie (feCookie (config s)), SetCookie (beCookie (config s))]\<rparr>"
    and "db (snd (validateWarriorCookie s r w)) = db w"
  using assms
  by (auto simp: validateWarriorCookie_def world_defs rw_defs split: sum.splits)

text \<open>
  Claim C2: for every request without an API-key header whose session cookie is absent
  or does not decode (the codec returns an error, as for a cookie that was tampered with
  or fails its integrity check), \<^verbatim>\<open>validateWarriorCookie\<close> returns an error and no Member
  ID, having handed to \<^verbatim>\<open>http.SetCookie\<close> the frontend and the backend cookie with an
  empty value and a negative max-age; both gates answer 401 with these two cookies and
  return without calling the handler, and the store is left as it was.
\<close>

theorem failed_cookie_resolves_no_identity:
  fixes s :: "'db server"
  assumes nokey: "reqHeader r apiKeyHeaderName = []"
    and bad: "(\<exists>e. Request_Cookie r (SecureCookieName (config s)) = Inl e)
      \<or> (\<exists>v e. Request_Cookie r (SecureCookieName (config s)) = Inr v
             \<and> Decode (cookie s) (SecureCookieName (config s)) v = Inl e)"
    and fresh: "\<not> wroteHeader (resp w)"
  shows "fst (validateWarriorCookie s r w) = Inl (errors_New ''invalid warrior cookies'')
     \<and> Header (resp (snd (validateWarriorCookie s r w)))
         = Header (resp w) @ [SetCookie (feCookie (config s)), SetCookie (beCookie (config s))]
     \<and> cValue (feCookie (config s)) = [] \<and> cMaxAge (feCookie (config s)) = - 1
     \<and> cName (feCookie (config s)) = FrontendCookieName (config s)
     \<and> cValue (beCookie (config s)) = [] \<and> cMaxAge (beCookie (config s)) = - 1
     \<and> cName (beCookie (config s)) = SecureCookieName (config s)
     \<and> fst (credential s r w) = Inl (errors_New ''invalid warrior cookies'')
     \<and> fst (warriorOnly_gate s r w) = None
     \<and> fst (adminOnly_gate s r w) = None
     \<and> warriorOnly s h r w = (Returned, snd (warriorOnly_gate s r w))
     \<and> adminOnly s h r w = (Returned, snd (adminOnly_gate s r w))
     \<and> status (resp (snd (warriorOnly_gate s r w))) = 401
     \<and> status (resp (snd (adminOnly_gate s r w))) = 401
     \<and> sentHeader (resp (snd (warriorOnly_gate s r w)))
         = Header (resp w) @ [SetCookie (feCookie (config s)), SetCookie (beCookie (config s))]
     \<and> sentHeader (resp (snd (adminOnly_gate s r w)))
         = Header (resp w) @ [SetCookie (feCookie (config s)), SetCookie (beCookie (config s))]
     \<and> db (snd (warriorOnly_gate s r w)) = db w
     \<and> db (snd (adminOnly_gate s r w)) = db w"
proof -
  have k: "TrimSpace (Header_Get r apiKeyHeaderName) = []"
    using nokey by (simp add: Header_Get_def TrimSpace_Nil)
  note v = validateWarriorCookie_failure [OF bad, of w]
  have c: "credential s r w = validateWarriorCookie s r w"
    using k by (simp add: credential_def)
  obtain w1 where w1: "validateWarriorCookie s r w = (Inl (errors_New ''invalid warrior cookies''), w1)"
    using v(1) by (cases "validateWarriorCookie s r w") simp
  have r1: "resp w1 = (resp w)\<lparr>Header := Header (resp w)
               @ [SetCookie (feCookie (config s)), SetCookie (beCookie (config s))]\<rparr>"
    and d1: "db w1 = db w"
    using v(2,3) w1 by simp_all
  have gw: "warriorOnly_gate s r w = (None, WriteHeader StatusUnauthorized w1)"
    using c w1 by (simp add: warriorOnly_gate_credential)
  have ga: "adminOnly_gate s r w = (None, WriteHeader StatusUnauthorized w1)"
    using c w1 by (simp add: adminOnly_gate_credential)
  have st: "status (resp (WriteHeader StatusUnauthorized w1)) = 401"
    "sentHeader (resp (WriteHeader StatusUnauthorized w1))
         = Header (resp w) @ [SetCookie (feCookie (config s)), SetCookie (beCookie (config s))]"
    "db (WriteHeader StatusUnauthorized w1) = db w"
    using r1 d1 fresh by (simp_all add: WriteHeader_def rw_defs)
  show ?thesis
    using v(1) w1 r1 c gw ga st
    by (simp add: warriorOnly_def adminOnly_def feCookie_def beCookie_def)
qed

text \<open>Claim C2, witness: a session cookie whose value the codec refuses.\<close>

theorem tampered_cookie_is_cleared:
  "reqHeader tampered_cookie_request apiKeyHeaderName = []
   \<and> Request_Cookie tampered_cookie_request ''warrior'' = Inr ''bogus''
   \<and> Decode example_cookie ''warrior'' ''bogus'' = Inl (errors_New ''securecookie: the value is not valid'')
   \<and> fst (validateWarriorCookie example_server tampered_cookie_request (NewWorld example_store))
       = Inl (errors_New ''invalid warrior cookies'')
   \<and> warriorOnly example_server whoami tampered_cookie_request (NewWorld example_store)
       = (Returned, snd (warriorOnly_gate example_server tampered_cookie_request (NewWorld example_store)))
   \<and> status (resp (snd (warriorOnly_gate example_server tampered_cookie_request (NewWorld example_store)))) = 401
   \<and> sentHeader (resp (snd (warriorOnly_gate example_server tampered_cookie_request (NewWorld example_store))))
       = [SetCookie \<lparr>cName = ''warriorId'', cValue = [], cPath = ''/'', cDomain = [], cMaxAge = - 1,
                     cSecure = False, cHttpOnly = False, cSameSite = SameSiteZero\<rparr>,
          SetCookie \<lparr>cName = ''warrior'', cValue = [], cPath = ''/'', cDomain = ''thunderdome.dev'',
                     cMaxAge = - 1, cSecure = True, cHttpOnly = True, cSameSite = SameSiteStrictMode\<rparr>]"
proof -
  have h: "reqHeader tampered_cookie_request apiKeyHeaderName = []"
    by (simp add: tampered_cookie_request_def NewRequest_def)
  have n: "SecureCookieName (config example_server) = ''warrior''"
    by (simp add: example_server_def)
  have c1: "Request_Cookie tampered_cookie_request ''warrior'' = Inr ''bogus''"
    by (simp add: tampered_cookie_request_def Request_Cookie_def NewRequest_def)
  have c2: "Decode example_cookie ''warrior'' ''bogus''
      = Inl (errors_New ''securecookie: the value is not valid'')"
    by (simp add: example_cookie_def)
  have bad: "(\<exists>e. Request_Cookie tampered_cookie_request (SecureCookieName (config example_server)) = Inl e)
      \<or> (\<exists>v e. Request_Cookie tampered_cookie_request (SecureCookieName (config example_server)) = Inr v
             \<and> Decode (cookie example_server) (SecureCookieName (config example_server)) v = Inl e)"
    using c1 c2 n by (simp add: example_server_def)
  have f: "\<not> wroteHeader (resp (NewWorld example_store))"
    by (simp add: NewWorld_def NewResponseWriter_def)
  from failed_cookie_resolves_no_identity [OF h bad f, of whoami]
  have main: "fst (validateWarriorCookie example_server tampered_cookie_request (NewWorld example_store))
       = Inl (errors_New ''invalid warrior cookies'')
   \<and> warriorOnly example_server whoami tampered_cookie_request (NewWorld example_store)
       = (Returned, snd (warriorOnly_gate example_server tampered_cookie_request (NewWorld example_store)))
   \<and> status (resp (snd (warriorOnly_gate example_server tampered_cookie_request (NewWorld example_store)))) = 401
   \<and> sentHeader (resp (snd (warriorOnly_gate example_server tampered_cookie_request (NewWorld example_store))))
       = [SetCookie \<lparr>cName = ''warriorId'', cValue = [], cPath = ''/'', cDomain = [], cMaxAge = - 1,
                     cSecure = False, cHttpOnly = False, cSameSite = SameSiteZero\<rparr>,
          SetCookie \<lparr>cName = ''warrior'', cValue = [], cPath = ''/'', cDomain = ''thunderdome.dev'',
                     cMaxAge = - 1, cSecure = True, cHttpOnly = True, cSameSite = SameSiteStrictMode\<rparr>]"
    by (simp add: feCookie_def beCookie_def example_server_def NewWorld_def NewResponseWriter_def)
  show ?thesis
    by (rule conjI [OF h conjI [OF c1 conjI [OF c2 main]]])
qed

section \<open>The gates and the wrapped handler\<close>




section \<open>Account lifecycle\<close>

lemma handleForgotPassword_resp:
  "resp (snd (handleForgotPassword s r w)) = rw_WriteHeader StatusOK (resp w)"
  by (simp add: handleForgotPassword_def world_defs Let_def split: prod.splits sum.splits)

lemma body_field_forgot: "body_field (forgot_request email) ''warriorEmail'' = email"
  by (simp add: body_field_def forgot_request_def NewRequest_def index_strings_def)

text \<open>
  Claim C3: for every request, \<^verbatim>\<open>handleForgotPassword\<close> returns with status 200 and an
  empty body; its response is a function of the response writer alone, so that two runs,
  for an address that matches a member and for one that does not, answer alike.  When
  the store's reset request succeeds (a reset token was issued for the address) the
  handler sends the reset e-mail with that token; when it fails, the handler makes no
  other call, writes no log line and leaves the store as the request left it.
\<close>

theorem forgot_password_answers_alike:
  fixes s :: "'db server" and s' :: "'db2 server"
  shows
    "fst (handleForgotPassword s r w) = Returned
     \<and> resp (snd (handleForgotPassword s r w)) = rw_WriteHeader StatusOK (resp w)
     \<and> (\<not> wroteHeader (resp w) \<longrightarrow>
          status (resp (snd (handleForgotPassword s r w))) = 200
          \<and> Body (resp (snd (handleForgotPassword s r w))) = Body (resp w))
     \<and> (resp w = resp w' \<longrightarrow>
          resp (snd (handleForgotPassword s r w)) = resp (snd (handleForgotPassword s' r' w'))
          \<and> fst (handleForgotPassword s r w) = fst (handleForgotPassword s' r' w'))
     \<and> logged (snd (handleForgotPassword s r w)) = logged w
     \<and> (\<forall>ResetID WarriorName d'.
          WarriorResetRequest (database s) (body_field r ''warriorEmail'') (db w)
            = (Inr (ResetID, WarriorName), d') \<longrightarrow>
          calls (snd (handleForgotPassword s r w))
            = calls w @ [Call_WarriorResetRequest (body_field r ''warriorEmail''),
                         Call_SendForgotPassword WarriorName (body_field r ''warriorEmail'') ResetID]
          \<and> db (snd (handleForgotPassword s r w)) = d')
     \<and> (\<forall>e d'.
          WarriorResetRequest (database s) (body_field r ''warriorEmail'') (db w) = (Inl e, d') \<longrightarrow>
          calls (snd (handleForgotPassword s r w))
            = calls w @ [Call_WarriorResetRequest (body_field r ''warriorEmail'')]
          \<and> db (snd (handleForgotPassword s r w)) = d')"
proof (intro conjI allI impI)
  show "fst (handleForgotPassword s r w) = Returned"
    by (simp add: handleForgotPassword_def Let_def split: prod.splits sum.splits)
  show "resp (snd (handleForgotPassword s r w)) = rw_WriteHeader StatusOK (resp w)"
    by (rule handleForgotPassword_resp)
  show "status (resp (snd (handleForgotPassword s r w))) = 200" if "\<not> wroteHeader (resp w)"
    using that by (simp add: handleForgotPassword_resp rw_defs)
  show "Body (resp (snd (handleForgotPassword s r w))) = Body (resp w)" if "\<not> wroteHeader (resp w)"
    using that by (simp add: handleForgotPassword_resp rw_defs)
  show "resp (snd (handleForgotPassword s r w)) = resp (snd (handleForgotPassword s' r' w'))"
    if "resp w = resp w'"
    using that by (simp add: handleForgotPassword_resp)
  show "fst (handleForgotPassword s r w) = fst (handleForgotPassword s' r' w')"
    by (simp add: handleForgotPassword_def Let_def split: prod.splits sum.splits)
  show "logged (snd (handleForgotPassword s r w)) = logged w"
    by (simp add: handleForgotPassword_def world_defs Let_def split: prod.splits sum.splits)
next
  fix ResetID WarriorName d'
  assume a: "WarriorResetRequest (database s) (body_field r ''warriorEmail'') (db w)
            = (Inr (ResetID, WarriorName), d')"
  show "calls (snd (handleForgotPassword s r w))
            = calls w @ [Call_WarriorResetRequest (body_field r ''warriorEmail''),
                         Call_SendForgotPassword WarriorName (body_field r ''warriorEmail'') ResetID]"
    using a by (simp add: handleForgotPassword_def body_field_def world_defs Let_def)
  show "db (snd (handleForgotPassword s r w)) = d'"
    using a by (simp add: handleForgotPassword_def body_field_def world_defs Let_def)
next
  fix e d'
  assume a: "WarriorResetRequest (database s) (body_field r ''warriorEmail'') (db w) = (Inl e, d')"
  show "calls (snd (handleForgotPassword s r w))
            = calls w @ [Call_WarriorResetRequest (body_field r ''warriorEmail'')]"
    using a by (simp add: handleForgotPassword_def body_field_def world_defs Let_def)
  show "db (snd (handleForgotPassword s r w)) = d'"
    using a by (simp add: handleForgotPassword_def body_field_def world_defs Let_def)
qed

text \<open>Claim C3, witness: Alice's address and an unknown one, on the example store.\<close>

theorem known_and_unknown_email_answer_alike:
  "resp (snd (handleForgotPassword example_server (forgot_request ''alice@example.com'') (NewWorld example_store)))
     = resp (snd (handleForgotPassword example_server (forgot_request ''nobody@example.com'') (NewWorld example_store)))
   \<and> status (resp (snd (handleForgotPassword example_server (forgot_request ''nobody@example.com'') (NewWorld example_store)))) = 200
   \<and> Body (resp (snd (handleForgotPassword example_server (forgot_request ''nobody@example.com'') (NewWorld example_store)))) = []
   \<and> calls (snd (handleForgotPassword example_server (forgot_request ''alice@example.com'') (NewWorld example_store)))
       = [Call_WarriorResetRequest ''alice@example.com'',
          Call_SendForgotPassword ''Alice'' ''alice@example.com'' ''reset-alice-id'']
   \<and> resetTokens (db (snd (handleForgotPassword example_server (forgot_request ''alice@example.com'') (NewWorld example_store))))
       = [(''reset-alice-id'', ''alice-id'')]
   \<and> calls (snd (handleForgotPassword example_server (forgot_request ''nobody@example.com'') (NewWorld example_store)))
       = [Call_WarriorResetRequest ''nobody@example.com'']
   \<and> db (snd (handleForgotPassword example_server (forgot_request ''nobody@example.com'') (NewWorld example_store)))
       = example_store"
proof -
  let ?known = "forgot_request ''alice@example.com''"
  let ?unknown = "forgot_request ''nobody@example.com''"
  let ?w = "NewWorld example_store"
  have f: "\<not> wroteHeader (resp ?w)" "resp ?w = resp ?w" "Body (resp ?w) = []" "calls ?w = []"
    by (simp_all add: NewWorld_def NewResponseWriter_def)
  have k: "WarriorResetRequest (database example_server) (body_field ?known ''warriorEmail'') (db ?w)
      = (Inr (''reset-alice-id'', ''Alice''), example_store\<lparr>resetTokens := [(''reset-alice-id'', ''alice-id'')]\<rparr>)"
    by (simp add: body_field_forgot example_defs)
  have u: "WarriorResetRequest (database example_server) (body_field ?unknown ''warriorEmail'') (db ?w)
      = (Inl (errors_New ''warrior email not found''), example_store)"
    by (simp add: body_field_forgot example_defs)
  note a = forgot_password_answers_alike [of example_server ?known ?w ?w example_server ?unknown]
  note b = forgot_password_answers_alike [of example_server ?unknown ?w ?w example_server ?unknown]
  have 1: "resp (snd (handleForgotPassword example_server ?known ?w))
     = resp (snd (handleForgotPassword example_server ?unknown ?w))"
    using a by blast
  have 2: "status (resp (snd (handleForgotPassword example_server ?unknown ?w))) = 200"
    "Body (resp (snd (handleForgotPassword example_server ?unknown ?w))) = []"
    using b f by (simp_all add: rw_defs NewWorld_def NewResponseWriter_def)
  have 3: "calls (snd (handleForgotPassword example_server ?known ?w))
       = [Call_WarriorResetRequest ''alice@example.com'',
          Call_SendForgotPassword ''Alice'' ''alice@example.com'' ''reset-alice-id'']"
    "resetTokens (db (snd (handleForgotPassword example_server ?known ?w)))
       = [(''reset-alice-id'', ''alice-id'')]"
    using a k f(4) by (simp_all add: body_field_forgot)
  have 4: "calls (snd (handleForgotPassword example_server ?unknown ?w))
       = [Call_WarriorResetRequest ''nobody@example.com'']"
    "db (snd (handleForgotPassword example_server ?unknown ?w)) = example_store"
    using b u f(4) by (simp_all add: body_field_forgot)
  show ?thesis
    using 1 2 3 4 by (intro conjI)
qed

lemma rune_count_Nil: "RuneCountInString [] = 0"
  by (simp add: RuneCountInString_def)

lemma v_Struct_warriorPassword_None:
  "v_Struct_warriorPassword a = None \<longleftrightarrow>
     6 \<le> RuneCountInString (pwPassword1 a) \<and> RuneCountInString (pwPassword1 a) \<le> 72
     \<and> pwPassword2 a = pwPassword1 a"
  by (auto simp: v_Struct_warriorPassword_def required_def min_max_def rune_count_Nil)

lemma v_Struct_warriorAccount_None:
  "v_Struct_warriorAccount rx a = None \<longleftrightarrow>
     Name a \<noteq> [] \<and> Email a \<noteq> [] \<and> rx (Email a)
     \<and> 6 \<le> RuneCountInString (Password1 a) \<and> RuneCountInString (Password1 a) \<le> 72
     \<and> Password2 a = Password1 a"
  by (auto simp: v_Struct_warriorAccount_def required_def min_max_def rune_count_Nil)

text \<open>
  Claim C4: for every reset request whose two passwords differ, or one of which has fewer
  than 6 or more than 72 characters (runes), \<^verbatim>\<open>handleResetPassword\<close> answers 400 and
  returns with nothing else done: no call to the store, so the reset token is not
  consumed, and no e-mail.
\<close>

theorem reset_with_bad_passwords_keeps_token:
  fixes s :: "'db server"
  assumes "body_field r ''warriorPassword1'' \<noteq> body_field r ''warriorPassword2''
           \<or> RuneCountInString (body_field r ''warriorPassword1'') < 6
           \<or> 72 < RuneCountInString (body_field r ''warriorPassword1'')
           \<or> RuneCountInString (body_field r ''warriorPassword2'') < 6
           \<or> 72 < RuneCountInString (body_field r ''warriorPassword2'')"
  shows "handleResetPassword s r w = (Returned, WriteHeader StatusBadRequest w)
     \<and> db (snd (handleResetPassword s r w)) = db w
     \<and> calls (snd (handleResetPassword s r w)) = calls w
     \<and> (\<not> wroteHeader (resp w) \<longrightarrow> status (resp (snd (handleResetPassword s r w))) = 400)"
proof -
  have "snd (ValidateWarriorPassword (body_field r ''warriorPassword1'')
               (body_field r ''warriorPassword2'')) \<noteq> None"
    using assms by (auto simp: ValidateWarriorPassword_def v_Struct_warriorPassword_None)
  then have 1: "handleResetPassword s r w = (Returned, WriteHeader StatusBadRequest w)"
    by (auto simp: handleResetPassword_def body_field_def Let_def split: prod.splits option.splits)
  show ?thesis
    unfolding 1 by (simp add: WriteHeader_def rw_defs)
qed

lemma RuneCount_secret: "RuneCountInString ''secret'' = 6"
  by (simp add: RuneCountInString_def rune_size_def lead_info_def)

lemma body_field_reset:
  "body_field (reset_request t p1 p2) ''warriorPassword1'' = p1"
  "body_field (reset_request t p1 p2) ''warriorPassword2'' = p2"
  "body_field (reset_request t p1 p2) ''resetId'' = t"
  by (simp_all add: body_field_def reset_request_def NewRequest_def index_strings_def)

text \<open>Claim C4, witness: two passwords that differ in their last letter, with a pending
  reset token that stays in the store.\<close>

theorem reset_with_mismatch_is_400:
  "handleResetPassword example_server (reset_request ''reset-alice-id'' ''secret'' ''secrey'')
       (NewWorld (example_store\<lparr>resetTokens := [(''reset-alice-id'', ''alice-id'')]\<rparr>))
     = (Returned,
        \<lparr>resp = \<lparr>Header = [], wroteHeader = True, StatusCode = 400, sentHeader = [], Body = []\<rparr>,
         db = example_store\<lparr>resetTokens := [(''reset-alice-id'', ''alice-id'')]\<rparr>,
         logged = [], calls = []\<rparr>)"
proof -
  have "body_field (reset_request ''reset-alice-id'' ''secret'' ''secrey'') ''warriorPassword1''
     \<noteq> body_field (reset_request ''reset-alice-id'' ''secret'' ''secrey'') ''warriorPassword2''"
    by (simp add: body_field_reset)
  then show ?thesis
    using reset_with_bad_passwords_keeps_token [of "reset_request ''reset-alice-id'' ''secret'' ''secrey''"
        example_server "NewWorld (example_store\<lparr>resetTokens := [(''reset-alice-id'', ''alice-id'')]\<rparr>)"]
    by (simp add: NewWorld_def NewResponseWriter_def WriteHeader_def rw_defs)
qed

text \<open>With two equal passwords of 6 to 72 characters the handler does go to the store.\<close>

lemma reset_with_valid_passwords_consults_store:
  fixes s :: "'db server"
  assumes "body_field r ''warriorPassword2'' = body_field r ''warriorPassword1''"
    and "6 \<le> RuneCountInString (body_field r ''warriorPassword1'')"
    and "RuneCountInString (body_field r ''warriorPassword1'') \<le> 72"
  shows "\<exists>cs. calls (snd (handleResetPassword s r w))
           = calls w @ Call_WarriorResetPassword (body_field r ''resetId'')
                         (body_field r ''warriorPassword1'') # cs"
proof -
  have "ValidateWarriorPassword (body_field r ''warriorPassword1'') (body_field r ''warriorPassword2'')
      = (body_field r ''warriorPassword1'', None)"
    using assms by (simp add: ValidateWarriorPassword_def v_Struct_warriorPassword_None)
  then show ?thesis
    by (auto simp: handleResetPassword_def world_defs Let_def simp flip: body_field_def
        split: prod.splits sum.splits)
qed

lemma validateWarriorCookie_effects:
  "wroteHeader (resp (snd (validateWarriorCookie s r w))) = wroteHeader (resp w)"
  "db (snd (validateWarriorCookie s r w)) = db w"
  "calls (snd (validateWarriorCookie s r w)) = calls w
   \<or> (\<exists>v. calls (snd (validateWarriorCookie s r w))
            = calls w @ [Call_cookie_Decode (SecureCookieName (config s)) v])"
  by (auto simp: validateWarriorCookie_def world_defs rw_defs Let_def split: sum.splits)

text \<open>
  Claim C6: \<^verbatim>\<open>handleWarriorEnlist\<close> goes on to create the member only when the name is
  not empty, the e-mail address is not empty and matches the validator's pattern, the
  password has between 6 and 72 characters (runes) and the confirmation equals it.  For
  every request that violates one of these, the handler answers 400, the store is left
  as it was, and the only call it may have made is the decoding of the session cookie.
\<close>

theorem enlist_rejects_invalid_fields:
  fixes s :: "'db server"
  assumes bad: "body_field r ''warriorName'' = []
           \<or> body_field r ''warriorEmail'' = []
           \<or> \<not> emailRegex s (body_field r ''warriorEmail'')
           \<or> RuneCountInString (body_field r ''warriorPassword1'') < 6
           \<or> 72 < RuneCountInString (body_field r ''warriorPassword1'')
           \<or> body_field r ''warriorPassword2'' \<noteq> body_field r ''warriorPassword1''"
    and fresh: "\<not> wroteHeader (resp w)"
  shows "fst (handleWarriorEnlist s r w) = Returned
     \<and> status (resp (snd (handleWarriorEnlist s r w))) = 400
     \<and> db (snd (handleWarriorEnlist s r w)) = db w
     \<and> (calls (snd (handleWarriorEnlist s r w)) = calls w
         \<or> (\<exists>v. calls (snd (handleWarriorEnlist s r w))
                  = calls w @ [Call_cookie_Decode (SecureCookieName (config s)) v]))"
proof -
  obtain keyVal jsonErr where u: "Unmarshal_strings (reqBody r) = (keyVal, jsonErr)"
    by (cases "Unmarshal_strings (reqBody r)")
  obtain cookieRes w1 where c: "validateWarriorCookie s r w = (cookieRes, w1)"
    by (cases "validateWarriorCookie s r w")
  have w1: "\<not> wroteHeader (resp w1)" "db w1 = db w"
    "calls w1 = calls w \<or> (\<exists>v. calls w1 = calls w @ [Call_cookie_Decode (SecureCookieName (config s)) v])"
    using validateWarriorCookie_effects [of s r w] c fresh by simp_all
  have f: "index_strings keyVal k = body_field r k" for k
    using u by (simp add: body_field_def)
  have v: "snd (snd (snd (ValidateWarriorAccount (emailRegex s)
             (body_field r ''warriorName'') (body_field r ''warriorEmail'')
             (body_field r ''warriorPassword1'') (body_field r ''warriorPassword2'')))) \<noteq> None"
    using bad by (auto simp: ValidateWarriorAccount_def v_Struct_warriorAccount_None)
  consider (off) "\<not> viper_GetBool s ''config.allow_registration''"
    | (json) "viper_GetBool s ''config.allow_registration''" "jsonErr \<noteq> None"
    | (fields) "viper_GetBool s ''config.allow_registration''" "jsonErr = None"
    by blast
  then have "handleWarriorEnlist s r w = (Returned, WriteHeader StatusBadRequest w)
      \<or> handleWarriorEnlist s r w = (Returned, WriteHeader StatusBadRequest w1)"
  proof cases
    case off
    then show ?thesis by (simp add: handleWarriorEnlist_def)
  next
    case json
    then show ?thesis using u by (auto simp: handleWarriorEnlist_def)
  next
    case fields
    then show ?thesis
      using u c v
      by (auto simp: handleWarriorEnlist_def f Let_def split: prod.splits option.splits)
  qed
  then show ?thesis
    using w1 fresh by (auto simp: WriteHeader_def rw_defs)
qed

lemma body_field_enlist:
  "body_field (enlist_request n e p1 p2) ''warriorName'' = n"
  "body_field (enlist_request n e p1 p2) ''warriorEmail'' = e"
  "body_field (enlist_request n e p1 p2) ''warriorPassword1'' = p1"
  "body_field (enlist_request n e p1 p2) ''warriorPassword2'' = p2"
  by (simp_all add: body_field_def enlist_request_def NewRequest_def index_strings_def)

lemma RuneCount_short: "RuneCountInString ''short'' = 5"
  by (simp add: RuneCountInString_def rune_size_def lead_info_def)

text \<open>Claim C6, witness: a password of five letters.\<close>

theorem enlist_with_short_password_is_400:
  "RuneCountInString ''short'' = 5
   \<and> fst (handleWarriorEnlist example_server
            (enlist_request ''Carol'' ''carol@example.com'' ''short'' ''short'') (NewWorld example_store))
       = Returned
   \<and> status (resp (snd (handleWarriorEnlist example_server
            (enlist_request ''Carol'' ''carol@example.com'' ''short'' ''short'') (NewWorld example_store))))
       = 400
   \<and> db (snd (handleWarriorEnlist example_server
            (enlist_request ''Carol'' ''carol@example.com'' ''short'' ''short'') (NewWorld example_store)))
       = example_store"
proof -
  let ?r = "enlist_request ''Carol'' ''carol@example.com'' ''short'' ''short''"
  have b: "body_field ?r ''warriorName'' = []
           \<or> body_field ?r ''warriorEmail'' = []
           \<or> \<not> emailRegex example_server (body_field ?r ''warriorEmail'')
           \<or> RuneCountInString (body_field ?r ''warriorPassword1'') < 6
           \<or> 72 < RuneCountInString (body_field ?r ''warriorPassword1'')
           \<or> body_field ?r ''warriorPassword2'' \<noteq> body_field ?r ''warriorPassword1''"
    by (simp add: body_field_enlist RuneCount_short)
  have f: "\<not> wroteHeader (resp (NewWorld example_store))"
    by (simp add: NewWorld_def NewResponseWriter_def)
  have d: "db (NewWorld example_store) = example_store"
    by (simp add: NewWorld_def)
  from enlist_rejects_invalid_fields [OF b f]
  show ?thesis
    by (simp add: RuneCount_short d)
qed

text \<open>With registration allowed, a body of strings and valid fields, the handler does ask
  the store to create the member.\<close>

lemma enlist_with_valid_fields_creates_member:
  fixes s :: "'db server"
  assumes "viper_GetBool s ''config.allow_registration''"
    and "snd (Unmarshal_strings (reqBody r)) = None"
    and "body_field r ''warriorName'' \<noteq> []" "body_field r ''warriorEmail'' \<noteq> []"
    and "emailRegex s (body_field r ''warriorEmail'')"
    and "6 \<le> RuneCountInString (body_field r ''warriorPassword1'')"
    and "RuneCountInString (body_field r ''warriorPassword1'') \<le> 72"
    and "body_field r ''warriorPassword2'' = body_field r ''warriorPassword1''"
  shows "\<exists>active. Call_CreateWarriorCorporal (body_field r ''warriorName'')
            (body_field r ''warriorEmail'') (body_field r ''warriorPassword1'') active
           \<in> set (calls (snd (handleWarriorEnlist s r w)))"
proof -
  obtain keyVal where u: "Unmarshal_strings (reqBody r) = (keyVal, None)"
    using assms(2) by (cases "Unmarshal_strings (reqBody r)") simp
  have f: "index_strings keyVal k = body_field r k" for k
    using u by (simp add: body_field_def)
  have v: "ValidateWarriorAccount (emailRegex s)
             (body_field r ''warriorName'') (body_field r ''warriorEmail'')
             (body_field r ''warriorPassword1'') (body_field r ''warriorPassword2'')
      = (body_field r ''warriorName'', body_field r ''warriorEmail'',
         body_field r ''warriorPassword1'', None)"
    using assms by (simp add: ValidateWarriorAccount_def v_Struct_warriorAccount_None)
  show ?thesis
    using assms(1) u v
    by (auto simp: handleWarriorEnlist_def f world_defs createWarriorCookie_def Let_def
        split: prod.splits sum.splits)
qed

lemma map_of_filter_key: "map_of (filter (\<lambda>(t, m). t \<noteq> k) xs) k = None"
  by (induction xs) auto

lemma verification_unknown_token:
  fixes s :: "Store server"
  assumes "VerifyWarriorAccount (database s) = store_VerifyWarriorAccount"
    and "map_of (verifyTokens (db w)) (body_field r ''verifyId'') = None"
    and "\<not> wroteHeader (resp w)"
  shows "fst (handleAccountVerification s r w) = Returned
     \<and> status (resp (snd (handleAccountVerification s r w))) = 500
     \<and> db (snd (handleAccountVerification s r w)) = db w"
  using assms
  by (simp add: handleAccountVerification_def body_field_def store_VerifyWarriorAccount_def
      world_defs rw_defs Let_def)

lemma verification_pending_token:
  fixes s :: "Store server"
  assumes "VerifyWarriorAccount (database s) = store_VerifyWarriorAccount"
    and "map_of (verifyTokens (db w)) (body_field r ''verifyId'') = Some memberID"
  shows "handleAccountVerification s r w
      = (Returned,
         w\<lparr>db := (db w)\<lparr>members := map (\<lambda>u. if WarriorID u = memberID then u\<lparr>verified := True\<rparr> else u)
                                       (members (db w)),
                         verifyTokens := filter (\<lambda>(t, m). t \<noteq> body_field r ''verifyId'')
                                           (verifyTokens (db w))\<rparr>,
           calls := calls w @ [Call_VerifyWarriorAccount (body_field r ''verifyId'')]\<rparr>)"
  using assms
  by (simp add: handleAccountVerification_def store_VerifyWarriorAccount_def db_call_def Let_def
      flip: body_field_def)

text \<open>
  Claim C5, on the store modelled from the spec: a call of \<^verbatim>\<open>handleAccountVerification\<close>
  with a pending token succeeds (status 200), marks the token's member verified and
  removes the token; the same request made again fails with status 500 and changes
  nothing; and a call with a token that is not pending fails with status 500.
\<close>

theorem verification_token_is_single_use:
  fixes s :: "Store server"
  assumes store: "VerifyWarriorAccount (database s) = store_VerifyWarriorAccount"
    and fresh: "\<not> wroteHeader (resp w)"
  shows
    "(\<forall>memberID. map_of (verifyTokens (db w)) (body_field r ''verifyId'') = Some memberID \<longrightarrow>
        fst (handleAccountVerification s r w) = Returned
        \<and> status (resp (snd (handleAccountVerification s r w))) = 200
        \<and> members (db (snd (handleAccountVerification s r w)))
            = map (\<lambda>u. if WarriorID u = memberID then u\<lparr>verified := True\<rparr> else u) (members (db w))
        \<and> map_of (verifyTokens (db (snd (handleAccountVerification s r w)))) (body_field r ''verifyId'') = None
        \<and> status (resp (snd (handleAccountVerification s r
              ((snd (handleAccountVerification s r w))\<lparr>resp := NewResponseWriter\<rparr>)))) = 500
        \<and> db (snd (handleAccountVerification s r
              ((snd (handleAccountVerification s r w))\<lparr>resp := NewResponseWriter\<rparr>)))
            = db (snd (handleAccountVerification s r w)))
     \<and> (map_of (verifyTokens (db w)) (body_field r ''verifyId'') = None \<longrightarrow>
          fst (handleAccountVerification s r w) = Returned
          \<and> status (resp (snd (handleAccountVerification s r w))) = 500
          \<and> db (snd (handleAccountVerification s r w)) = db w)"
proof -
  let ?t = "body_field r ''verifyId''"
  note unknown = verification_unknown_token [OF store]
  note known = verification_pending_token [OF store]
  note gone = map_of_filter_key
  show ?thesis
  proof (intro conjI allI impI)
    fix memberID
    assume a: "map_of (verifyTokens (db w)) ?t = Some memberID"
    note k = known [OF a]
    show "fst (handleAccountVerification s r w) = Returned"
      by (simp add: k)
    show "status (resp (snd (handleAccountVerification s r w))) = 200"
      using fresh by (simp add: k status_def)
    show "members (db (snd (handleAccountVerification s r w)))
            = map (\<lambda>u. if WarriorID u = memberID then u\<lparr>verified := True\<rparr> else u) (members (db w))"
      by (simp add: k)
    show g: "map_of (verifyTokens (db (snd (handleAccountVerification s r w)))) ?t = None"
      by (simp add: k gone)
    have n: "\<not> wroteHeader (resp ((snd (handleAccountVerification s r w))\<lparr>resp := NewResponseWriter\<rparr>))"
      by (simp add: NewResponseWriter_def)
    have g': "map_of (verifyTokens (db ((snd (handleAccountVerification s r w))\<lparr>resp := NewResponseWriter\<rparr>))) ?t = None"
      using g by simp
    show "status (resp (snd (handleAccountVerification s r
              ((snd (handleAccountVerification s r w))\<lparr>resp := NewResponseWriter\<rparr>)))) = 500"
      using unknown [OF g' n] by simp
    show "db (snd (handleAccountVerification s r
              ((snd (handleAccountVerification s r w))\<lparr>resp := NewResponseWriter\<rparr>)))
            = db (snd (handleAccountVerification s r w))"
      using unknown [OF g' n] by simp
  next
    assume a: "map_of (verifyTokens (db w)) ?t = None"
    show "fst (handleAccountVerification s r w) = Returned"
      "status (resp (snd (handleAccountVerification s r w))) = 500"
      "db (snd (handleAccountVerification s r w)) = db w"
      using unknown [OF a fresh] by simp_all
  qed
qed

lemma body_field_verify: "body_field (verify_request t) ''verifyId'' = t"
  by (simp add: body_field_def verify_request_def NewRequest_def index_strings_def)

text \<open>Claim C5, witness: Alice's token \<open>v-1\<close>, used twice.\<close>

theorem alice_verifies_once:
  "map_of (verifyTokens example_store) ''v-1'' = Some ''alice-id''
   \<and> status (resp (snd (handleAccountVerification example_server (verify_request ''v-1'')
         (NewWorld example_store)))) = 200
   \<and> members (db (snd (handleAccountVerification example_server (verify_request ''v-1'')
         (NewWorld example_store)))) = [alice\<lparr>verified := True\<rparr>, bob]
   \<and> status (resp (snd (handleAccountVerification example_server (verify_request ''v-1'')
         ((snd (handleAccountVerification example_server (verify_request ''v-1'')
            (NewWorld example_store)))\<lparr>resp := NewResponseWriter\<rparr>)))) = 500"
proof -
  have s: "VerifyWarriorAccount (database example_server) = store_VerifyWarriorAccount"
    by (simp add: example_server_def example_database_def)
  have f: "\<not> wroteHeader (resp (NewWorld example_store))"
    by (simp add: NewWorld_def NewResponseWriter_def)
  have t: "map_of (verifyTokens example_store) ''v-1'' = Some ''alice-id''"
    by (simp add: example_store_def)
  have t': "map_of (verifyTokens (db (NewWorld example_store)))
              (body_field (verify_request ''v-1'') ''verifyId'') = Some ''alice-id''"
    using t by (simp add: body_field_verify NewWorld_def)
  have m: "map (\<lambda>u. if WarriorID u = ''alice-id'' then u\<lparr>verified := True\<rparr> else u)
             (members (db (NewWorld example_store))) = [alice\<lparr>verified := True\<rparr>, bob]"
    by (simp add: NewWorld_def example_store_def alice_def bob_def)
  from verification_token_is_single_use [OF s f, of "verify_request ''v-1''"] t' m
  have main: "status (resp (snd (handleAccountVerification example_server (verify_request ''v-1'')
         (NewWorld example_store)))) = 200
   \<and> members (db (snd (handleAccountVerification example_server (verify_request ''v-1'')
         (NewWorld example_store)))) = [alice\<lparr>verified := True\<rparr>, bob]
   \<and> status (resp (snd (handleAccountVerification example_server (verify_request ''v-1'')
         ((snd (handleAccountVerification example_server (verify_request ''v-1'')
            (NewWorld example_store)))\<lparr>resp := NewResponseWriter\<rparr>)))) = 500"
    by simp
  show ?thesis
    by (rule conjI [OF t main])
qed

section \<open>Profiles and API keys\<close>

text \<open>
  Claim C10: for every request whose body has no string under \<^verbatim>\<open>warriorName\<close> or none
  under \<^verbatim>\<open>warriorAvatar\<close>, \<^verbatim>\<open>handleWarriorProfileUpdate\<close> panics in a type assertion:
  it writes no status (no 400), calls nothing, and does so whoever the caller is, since
  the assertions come before the comparison of the path's ID with the caller's.
\<close>

theorem profile_update_panics_before_ownership_check:
  fixes s :: "'db server"
  assumes "(\<nexists>v. fst (Unmarshal_values (reqBody r)) ''warriorName'' = Some (JString v))
         \<or> (\<nexists>v. fst (Unmarshal_values (reqBody r)) ''warriorAvatar'' = Some (JString v))"
  shows "handleWarriorProfileUpdate s r w = (Panicked, w)"
proof -
  have "assert_string (fst (Unmarshal_values (reqBody r))) ''warriorName'' = None
     \<or> assert_string (fst (Unmarshal_values (reqBody r))) ''warriorAvatar'' = None"
    using assms by (auto simp: assert_string_def split: option.splits json.splits)
  then show ?thesis
    by (auto simp: handleWarriorProfileUpdate_def Let_def split: option.splits)
qed

text \<open>Claim C10, witness: Bob, authenticated, posts a name and no avatar to Alice's
  profile.\<close>

theorem profile_update_of_another_member_panics:
  "index_strings (Vars foreign_profile_request) ''id'' = ''alice-id''
   \<and> ctxWarriorID foreign_profile_request = Some ''bob-id''
   \<and> fst (Unmarshal_values (reqBody foreign_profile_request)) ''warriorName'' = Some (JString ''Mallory'')
   \<and> fst (Unmarshal_values (reqBody foreign_profile_request)) ''warriorAvatar'' = None
   \<and> handleWarriorProfileUpdate example_server foreign_profile_request (NewWorld example_store)
       = (Panicked, NewWorld example_store)
   \<and> \<not> wroteHeader (resp (NewWorld example_store))"
proof -
  have 1: "index_strings (Vars foreign_profile_request) ''id'' = ''alice-id''"
    "ctxWarriorID foreign_profile_request = Some ''bob-id''"
    "fst (Unmarshal_values (reqBody foreign_profile_request)) ''warriorName'' = Some (JString ''Mallory'')"
    by (simp_all add: foreign_profile_request_def NewRequest_def index_strings_def)
  have 2: "fst (Unmarshal_values (reqBody foreign_profile_request)) ''warriorAvatar'' = None"
    by (simp add: foreign_profile_request_def NewRequest_def)
  have 3: "\<not> wroteHeader (resp (NewWorld example_store))"
    by (simp add: NewWorld_def NewResponseWriter_def)
  have "(\<nexists>v. fst (Unmarshal_values (reqBody foreign_profile_request)) ''warriorName'' = Some (JString v))
         \<or> (\<nexists>v. fst (Unmarshal_values (reqBody foreign_profile_request)) ''warriorAvatar'' = Some (JString v))"
    using 2 by simp
  from profile_update_panics_before_ownership_check [OF this]
  have 4: "handleWarriorProfileUpdate example_server foreign_profile_request (NewWorld example_store)
       = (Panicked, NewWorld example_store)" .
  show ?thesis
    using 1 2 3 4 by (intro conjI)
qed

text \<open>With both strings in the body the same request is answered 401.\<close>

lemma profile_update_of_another_member_with_fields:
  fixes s :: "'db server"
  assumes "fst (Unmarshal_values (reqBody r)) ''warriorName'' = Some (JString n)"
    and "fst (Unmarshal_values (reqBody r)) ''warriorAvatar'' = Some (JString a)"
    and "ctxWarriorID r = Some caller" and "index_strings (Vars r) ''id'' \<noteq> caller"
  shows "handleWarriorProfileUpdate s r w = (Returned, WriteHeader StatusUnauthorized w)"
  using assms by (simp add: handleWarriorProfileUpdate_def assert_string_def Let_def)

text \<open>
  Claim C8 says that every API-key operation answers 401 when the caller is not the
  owner named in the path.  \<^verbatim>\<open>handleAPIKeyGenerate\<close> asserts the type of the body's
  \<^verbatim>\<open>name\<close> before it compares the IDs: for Bob's request on Alice's keys with the body
  \<^verbatim>\<open>{}\<close> it panics and writes no status, where \<^verbatim>\<open>handleWarriorAPIKeys\<close> answers 401.
\<close>

theorem generate_key_for_another_member_panics:
  "ctxWarriorID foreign_key_request = Some ''bob-id''
   \<and> index_strings (Vars foreign_key_request) ''id'' = ''alice-id''
   \<and> reqBody foreign_key_request = Some (JObject [])
   \<and> handleAPIKeyGenerate example_server foreign_key_request (NewWorld example_store)
       = (Panicked, NewWorld example_store)
   \<and> \<not> wroteHeader (resp (NewWorld example_store))
   \<and> handleWarriorAPIKeys example_server foreign_key_request (NewWorld example_store)
       = (Returned, WriteHeader StatusUnauthorized (NewWorld example_store))
   \<and> status (resp (WriteHeader StatusUnauthorized (NewWorld example_store :: Store world))) = 401"
  by (simp add: foreign_key_request_def NewRequest_def index_strings_def handleAPIKeyGenerate_def
      handleWarriorAPIKeys_def assert_string_def NewWorld_def NewResponseWriter_def
      WriteHeader_def rw_defs)

text \<open>
  What holds of the owner check: when the caller is not the owner named in the path, the
  handlers that list, update and delete keys answer 401 and return, and so does
  \<^verbatim>\<open>handleAPIKeyGenerate\<close> when the body has a string \<^verbatim>\<open>name\<close>; in no case is the store
  called or changed.
\<close>

theorem api_key_owner_check:
  fixes s :: "'db server"
  assumes caller: "ctxWarriorID r = Some caller"
    and other: "index_strings (Vars r) ''id'' \<noteq> caller"
  shows "handleWarriorAPIKeys s r w = (Returned, WriteHeader StatusUnauthorized w)
     \<and> handleWarriorAPIKeyUpdate s r w = (Returned, WriteHeader StatusUnauthorized w)
     \<and> handleWarriorAPIKeyDelete s r w = (Returned, WriteHeader StatusUnauthorized w)
     \<and> (\<forall>name. fst (Unmarshal_values (reqBody r)) ''name'' = Some (JString name) \<longrightarrow>
          handleAPIKeyGenerate s r w = (Returned, WriteHeader StatusUnauthorized w))
     \<and> db (snd (handleAPIKeyGenerate s r w)) = db w
     \<and> calls (snd (handleAPIKeyGenerate s r w)) = calls w
     \<and> db (WriteHeader StatusUnauthorized w) = db w
     \<and> calls (WriteHeader StatusUnauthorized w) = calls w
     \<and> (\<not> wroteHeader (resp w) \<longrightarrow> status (resp (WriteHeader StatusUnauthorized w)) = 401)"
  using assms
  by (auto simp: handleWarriorAPIKeys_def handleWarriorAPIKeyUpdate_def handleWarriorAPIKeyDelete_def
      handleAPIKeyGenerate_def assert_string_def WriteHeader_def rw_defs Let_def
      split: option.splits json.splits)

text \<open>An instance of the owner check: Bob deletes a key of Alice's.\<close>

theorem deleting_key_of_another_member_is_401:
  "ctxWarriorID foreign_key_request = Some ''bob-id''
   \<and> index_strings (Vars foreign_key_request) ''id'' = ''alice-id''
   \<and> handleWarriorAPIKeyDelete example_server foreign_key_request (NewWorld example_store)
       = (Returned,
          \<lparr>resp = \<lparr>Header = [], wroteHeader = True, StatusCode = 401, sentHeader = [], Body = []\<rparr>,
           db = example_store, logged = [], calls = []\<rparr>)"
proof -
  have 1: "ctxWarriorID foreign_key_request = Some ''bob-id''"
    and 2: "index_strings (Vars foreign_key_request) ''id'' = ''alice-id''"
    by (simp_all add: foreign_key_request_def NewRequest_def index_strings_def)
  have 3: "index_strings (Vars foreign_key_request) ''id'' \<noteq> ''bob-id''"
    by (simp add: 2)
  from api_key_owner_check [OF 1 3, of example_server "NewWorld example_store"]
  have 4: "handleWarriorAPIKeyDelete example_server foreign_key_request (NewWorld example_store)
       = (Returned,
          \<lparr>resp = \<lparr>Header = [], wroteHeader = True, StatusCode = 401, sentHeader = [], Body = []\<rparr>,
           db = example_store, logged = [], calls = []\<rparr>)"
    by (simp add: NewWorld_def NewResponseWriter_def WriteHeader_def rw_defs)
  show ?thesis
    using 1 2 4 by (intro conjI)
qed

end
